theory Spec2Isabelle
  imports Complex_Main "HOL-Library.Word"
begin

unbundle bit_operations_syntax

section \<open>Python values used by \<open>drain3/template_miner.py\<close>\<close>

text \<open>
  Exceptions are values. Every \<^verbatim>\<open>raise\<close> that can leave a function of
  \<^verbatim>\<open>template_miner.py\<close> is a branch that returns \<open>Inl\<close> of one of these.
  \<open>LibraryError\<close> stands for whatever an external collaborator raises (the persistence
  handler, \<^verbatim>\<open>base64\<close>, \<^verbatim>\<open>zlib\<close>, \<^verbatim>\<open>jsonpickle\<close>, the Drain engine).
\<close>

datatype exn =
    ValueError
  | KeyError
  | RuntimeError string
  | AttributeError
  | LibraryError string

type_synonym bytes = "8 word list"

text \<open>
  The keys of the two mappings that \<^verbatim>\<open>load_state\<close> normalises are Python objects that
  are either \<^verbatim>\<open>int\<close> or \<^verbatim>\<open>str\<close> at run time.
\<close>

datatype pykey = KInt int | KStr string

fun is_str :: "pykey \<Rightarrow> bool" where
  "is_str (KStr s) = True"
| "is_str (KInt i) = False"

fun is_int :: "pykey \<Rightarrow> bool" where
  "is_int (KInt i) = True"
| "is_int (KStr s) = False"

subsection \<open>The builtin \<^verbatim>\<open>int(x)\<close> on an \<^verbatim>\<open>int\<close> or a \<^verbatim>\<open>str\<close>\<close>

text \<open>
  \<^verbatim>\<open>int(s)\<close> strips surrounding white space, reads an optional sign and then decimal
  digits, where single underscores may separate digits; anything else raises
  \<^verbatim>\<open>ValueError\<close>. Characters are the 256 code points a \<open>char\<close> can hold.
\<close>

definition is_space :: "char \<Rightarrow> bool" where
  "is_space c = ((of_char c :: nat) \<in> {9, 10, 11, 12, 13, 28, 29, 30, 31, 32, 133, 160})"

definition digit_val :: "char \<Rightarrow> nat option" where
  "digit_val c =
     (let n = (of_char c :: nat) in if 48 \<le> n \<and> n \<le> 57 then Some (n - 48) else None)"

fun digits_acc :: "nat \<Rightarrow> string \<Rightarrow> nat option" where
  "digits_acc acc [] = Some acc"
| "digits_acc acc (c # cs) =
     (if c = CHR ''_'' then
        (case cs of
           [] \<Rightarrow> None
         | c' # cs' \<Rightarrow>
             (case digit_val c' of
                None \<Rightarrow> None
              | Some v \<Rightarrow> digits_acc (acc * 10 + v) cs'))
      else
        (case digit_val c of
           None \<Rightarrow> None
         | Some v \<Rightarrow> digits_acc (acc * 10 + v) cs))"

definition parse_decimal :: "string \<Rightarrow> nat option" where
  "parse_decimal s =
     (case s of
        [] \<Rightarrow> None
      | c # cs \<Rightarrow> (case digit_val c of None \<Rightarrow> None | Some v \<Rightarrow> digits_acc v cs))"

definition strip :: "string \<Rightarrow> string" where
  "strip s = rev (dropWhile is_space (rev (dropWhile is_space s)))"

definition int_of_str :: "string \<Rightarrow> exn + int" where
  "int_of_str s =
     (case strip s of
        [] \<Rightarrow> Inl ValueError
      | c # cs \<Rightarrow>
          (if c = CHR ''-'' then
             (case parse_decimal cs of None \<Rightarrow> Inl ValueError | Some n \<Rightarrow> Inr (- int n))
           else if c = CHR ''+'' then
             (case parse_decimal cs of None \<Rightarrow> Inl ValueError | Some n \<Rightarrow> Inr (int n))
           else
             (case parse_decimal (c # cs) of None \<Rightarrow> Inl ValueError | Some n \<Rightarrow> Inr (int n))))"

fun py_int :: "pykey \<Rightarrow> exn + int" where
  "py_int (KInt i) = Inr i"
| "py_int (KStr s) = int_of_str s"

subsection \<open>\<^verbatim>\<open>str(i)\<close> for an \<^verbatim>\<open>int\<close>, as \<^verbatim>\<open>"{}".format(i)\<close> renders it\<close>

definition digit_char :: "nat \<Rightarrow> char" where
  "digit_char n = char_of (48 + n)"

fun str_nat :: "nat \<Rightarrow> string" where
  "str_nat n = (if n < 10 then [digit_char n] else str_nat (n div 10) @ [digit_char (n mod 10)])"

declare str_nat.simps [simp del]

definition str_int :: "int \<Rightarrow> string" where
  "str_int i = (if i < 0 then CHR ''-'' # str_nat (nat (- i)) else str_nat (nat i))"

subsection \<open>\<^verbatim>\<open>str.encode('utf-8')\<close>\<close>

text \<open>
  A code point below 128 is one byte; the code points 128 to 255 are two bytes.
\<close>

definition utf8_char :: "char \<Rightarrow> bytes" where
  "utf8_char c =
     (let n = (of_char c :: nat) in
      if n < 128 then [of_nat n] else [of_nat (192 + n div 64), of_nat (128 + n mod 64)])"

definition encode_utf8 :: "string \<Rightarrow> bytes" where
  "encode_utf8 s = concat (map utf8_char s)"

section \<open>The Python \<^verbatim>\<open>dict\<close>\<close>

text \<open>
  \<^verbatim>\<open>load_state\<close> pops and re-inserts keys of two dictionaries, the second time while it
  iterates over the live key view of the dictionary it mutates. What Python does there
  depends on how CPython lays a dictionary out, so the model keeps that layout
  (CPython 3.11, \<^verbatim>\<open>Objects/dictobject.c\<close>): the insertion-ordered entry table, where a
  deleted entry leaves an empty slot behind, the number of free slots left before the
  next resize, and whether the table is of the kind that holds only \<^verbatim>\<open>str\<close> keys.
\<close>

record 'v pydict =
  dk_entries :: "(pykey \<times> 'v) option list"
  dk_usable :: nat
  dk_unicode :: bool

definition empty_dict :: "'v pydict" where
  "empty_dict = \<lparr>dk_entries = [], dk_usable = 0, dk_unicode = True\<rparr>"

definition live :: "(pykey \<times> 'v) option list \<Rightarrow> (pykey \<times> 'v) list" where
  "live es = concat (map (\<lambda>e. case e of None \<Rightarrow> [] | Some kv \<Rightarrow> [kv]) es)"

definition items :: "'v pydict \<Rightarrow> (pykey \<times> 'v) list" where
  "items d = live (dk_entries d)"

definition keys :: "'v pydict \<Rightarrow> pykey list" where
  "keys d = map fst (items d)"

definition ma_used :: "'v pydict \<Rightarrow> nat" where
  "ma_used d = length (items d)"

fun bit_length :: "nat \<Rightarrow> nat" where
  "bit_length n = (if n = 0 then 0 else Suc (bit_length (n div 2)))"

declare bit_length.simps [simp del]

definition USABLE_FRACTION :: "nat \<Rightarrow> nat" where
  "USABLE_FRACTION n = (2 * n) div 3"

definition calculate_log2_keysize :: "nat \<Rightarrow> nat" where
  "calculate_log2_keysize minsize = bit_length (((minsize OR 8) - 1) OR 7)"

definition GROWTH_RATE :: "'v pydict \<Rightarrow> nat" where
  "GROWTH_RATE d = ma_used d * 3"

text \<open>
  A resize allocates a new table and copies the live entries into it in order, which
  drops the empty slots. The new table holds only \<^verbatim>\<open>str\<close> keys if that was asked
  for and the old one did.
\<close>

definition dictresize :: "'v pydict \<Rightarrow> nat \<Rightarrow> bool \<Rightarrow> 'v pydict" where
  "dictresize d log2_newsize unicode =
     \<lparr>dk_entries = map Some (items d),
      dk_usable = USABLE_FRACTION (2 ^ log2_newsize) - ma_used d,
      dk_unicode = (unicode \<and> dk_unicode d)\<rparr>"

definition insertion_resize :: "'v pydict \<Rightarrow> bool \<Rightarrow> 'v pydict" where
  "insertion_resize d unicode = dictresize d (calculate_log2_keysize (GROWTH_RATE d)) unicode"

fun lookup_from :: "nat \<Rightarrow> (pykey \<times> 'v) option list \<Rightarrow> pykey \<Rightarrow> (nat \<times> 'v) option" where
  "lookup_from i [] k = None"
| "lookup_from i (None # es) k = lookup_from (Suc i) es k"
| "lookup_from i (Some (k', v) # es) k = (if k' = k then Some (i, v) else lookup_from (Suc i) es k)"

definition dict_lookup :: "'v pydict \<Rightarrow> pykey \<Rightarrow> (nat \<times> 'v) option" where
  "dict_lookup d k = lookup_from 0 (dk_entries d) k"

text \<open>
  \<^verbatim>\<open>d[key] = value\<close> (\<^verbatim>\<open>insertdict\<close>). A key that is not a \<^verbatim>\<open>str\<close> first converts
  a \<^verbatim>\<open>str\<close>-only table by a resize. An existing key keeps its slot and gets the new
  value; a new key takes the next slot at the end of the table, after a resize when no
  free slot is left.
\<close>

definition dict_setitem :: "'v pydict \<Rightarrow> pykey \<Rightarrow> 'v \<Rightarrow> 'v pydict" where
  "dict_setitem d key val =
     (let d1 = (if dk_unicode d \<and> \<not> is_str key then insertion_resize d False else d) in
      case dict_lookup d1 key of
        Some (i, old) \<Rightarrow> d1\<lparr>dk_entries := (dk_entries d1)[i := Some (key, val)]\<rparr>
      | None \<Rightarrow>
          (let d2 = (if dk_usable d1 = 0 then insertion_resize d1 True else d1) in
           d2\<lparr>dk_entries := dk_entries d2 @ [Some (key, val)],
              dk_usable := dk_usable d2 - 1\<rparr>))"

text \<open>\<^verbatim>\<open>d.pop(key)\<close>: the entry's slot is emptied and stays in the table.\<close>

definition dict_pop :: "'v pydict \<Rightarrow> pykey \<Rightarrow> (exn + 'v) \<times> 'v pydict" where
  "dict_pop d key =
     (case dict_lookup d key of
        None \<Rightarrow> (Inl KeyError, d)
      | Some (i, v) \<Rightarrow> (Inr v, d\<lparr>dk_entries := (dk_entries d)[i := None]\<rparr>))"

text \<open>A dictionary built by inserting the items in order into \<^verbatim>\<open>{}\<close>.\<close>

definition dict_of :: "(pykey \<times> 'v) list \<Rightarrow> 'v pydict" where
  "dict_of kvs = foldl (\<lambda>d (k, v). dict_setitem d k v) empty_dict kvs"

subsection \<open>Iterating over the key view\<close>

text \<open>
  The iterator of \<^verbatim>\<open>d.keys()\<close> (\<^verbatim>\<open>dictiter_iternextkey\<close>) remembers the size of the
  dictionary when it was created, its position in the entry table and how many keys it
  has still to give. Each step fails if the size has changed, skips empty slots, ends
  when it runs off the table, and fails if it finds an entry after it has given as many
  keys as the dictionary had.
\<close>

fun first_entry :: "nat \<Rightarrow> (pykey \<times> 'v) option list \<Rightarrow> (nat \<times> pykey) option" where
  "first_entry i [] = None"
| "first_entry i (None # es) = first_entry (Suc i) es"
| "first_entry i (Some (k, v) # es) = Some (i, k)"

definition next_entry :: "nat \<Rightarrow> (pykey \<times> 'v) option list \<Rightarrow> (nat \<times> pykey) option" where
  "next_entry pos es = first_entry pos (drop pos es)"

datatype iter_step = StopIteration | Yield pykey nat | IterError exn

definition iternextkey :: "nat \<Rightarrow> nat \<Rightarrow> nat \<Rightarrow> 'v pydict \<Rightarrow> iter_step" where
  "iternextkey di_used di_pos di_len d =
     (if di_used \<noteq> ma_used d then
        IterError (RuntimeError ''dictionary changed size during iteration'')
      else
        (case next_entry di_pos (dk_entries d) of
           None \<Rightarrow> StopIteration
         | Some (i, key) \<Rightarrow>
             if di_len = 0 then
               IterError (RuntimeError ''dictionary keys changed during iteration'')
             else Yield key (Suc i)))"

text \<open>
  The statement \<^verbatim>\<open>d[int(key)] = d.pop(key)\<close>: Python evaluates the right-hand side
  first, then the subscript, then stores.
\<close>

definition rekey :: "'v pydict \<Rightarrow> pykey \<Rightarrow> (exn + unit) \<times> 'v pydict" where
  "rekey d key =
     (case dict_pop d key of
        (Inl e, d1) \<Rightarrow> (Inl e, d1)
      | (Inr v, d1) \<Rightarrow>
          (case py_int key of
             Inl e \<Rightarrow> (Inl e, d1)
           | Inr i \<Rightarrow> (Inr (), dict_setitem d1 (KInt i) v)))"

text \<open>
  \<^verbatim>\<open>for key in keys: d[int(key)] = d.pop(key)\<close> where \<^verbatim>\<open>keys\<close> is a list that was
  filled beforehand.
\<close>

fun rekey_list :: "pykey list \<Rightarrow> 'v pydict \<Rightarrow> (exn + unit) \<times> 'v pydict" where
  "rekey_list [] d = (Inr (), d)"
| "rekey_list (key # ks) d =
     (case rekey d key of
        (Inl e, d1) \<Rightarrow> (Inl e, d1)
      | (Inr u, d1) \<Rightarrow> rekey_list ks d1)"

text \<open>
  The same loop where \<^verbatim>\<open>keys = d.keys()\<close> is the live view of \<^verbatim>\<open>d\<close>. The iterator
  gives at most as many keys as the dictionary had at the start, which bounds the loop.
\<close>

fun rekey_view :: "nat \<Rightarrow> nat \<Rightarrow> nat \<Rightarrow> 'v pydict \<Rightarrow> (exn + unit) \<times> 'v pydict" where
  "rekey_view di_used di_pos 0 d =
     (case iternextkey di_used di_pos 0 d of
        StopIteration \<Rightarrow> (Inr (), d)
      | IterError e \<Rightarrow> (Inl e, d)
      | Yield key pos \<Rightarrow> (Inl (RuntimeError ''dictionary keys changed during iteration''), d))"
| "rekey_view di_used di_pos (Suc n) d =
     (case iternextkey di_used di_pos (Suc n) d of
        StopIteration \<Rightarrow> (Inr (), d)
      | IterError e \<Rightarrow> (Inl e, d)
      | Yield key pos \<Rightarrow>
          (case rekey d key of
             (Inl e, d1) \<Rightarrow> (Inl e, d1)
           | (Inr u, d1) \<Rightarrow> rekey_view di_used pos n d1))"

section \<open>The collaborators of the controller\<close>

text \<open>
  \<^verbatim>\<open>template_miner.py\<close> imports \<^verbatim>\<open>Drain\<close>, \<^verbatim>\<open>LogMasker\<close>, \<^verbatim>\<open>PersistenceHandler\<close>,
  the profilers and \<^verbatim>\<open>TemplateMinerConfig\<close> from other modules, and \<^verbatim>\<open>base64\<close>,
  \<^verbatim>\<open>zlib\<close>, \<^verbatim>\<open>jsonpickle\<close> from libraries. Their data is modelled as far as
  \<^verbatim>\<open>template_miner.py\<close> reads or writes it; their functions are parameters of the model,
  collected in the record \<open>env\<close> below.
\<close>

text \<open>
  Modelled from the spec: the cluster object that the engine returns is not defined in
  \<^verbatim>\<open>template_miner.py\<close>; it exposes an integer id, an integer size (its message
  count) and its current template string.
\<close>

record log_cluster =
  cluster_id :: int
  size_lc :: int
  template :: string

definition get_template :: "log_cluster \<Rightarrow> string" where
  "get_template c = template c"

text \<open>
  Modelled from the spec: the profiler classes are not defined in
  \<^verbatim>\<open>template_miner.py\<close>. The instrumentation hook offers \<^verbatim>\<open>start_section(name)\<close>,
  \<^verbatim>\<open>end_section(name?)\<close> and \<^verbatim>\<open>report(interval)\<close>, which return nothing; the no-op
  variant ignores every call, the active one keeps state, modelled as the calls it has
  received.
\<close>

datatype prof_event = StartSection string | EndSection string | Report int

datatype profiler_obj = NullProfiler | SimpleProfiler "prof_event list"

fun prof_call :: "prof_event \<Rightarrow> profiler_obj \<Rightarrow> profiler_obj" where
  "prof_call ev NullProfiler = NullProfiler"
| "prof_call ev (SimpleProfiler evs) = SimpleProfiler (evs @ [ev])"

text \<open>The attributes of \<^verbatim>\<open>TemplateMinerConfig\<close> that \<^verbatim>\<open>template_miner.py\<close> reads.\<close>

record config =
  profiling_enabled :: bool
  drain_sim_th :: real
  drain_depth :: int
  drain_max_children :: int
  drain_max_clusters :: "int option"
  drain_extra_delimiters :: "string list"
  masking_instructions :: "(string \<times> string) list"
  snapshot_compress_state :: bool
  snapshot_interval_minutes :: real
  profiling_report_sec :: int

text \<open>
  The \<^verbatim>\<open>Drain\<close> object, as far as the controller touches it: the constructor's
  arguments, the key-to-child mapping of its root node, its id-to-cluster mapping, its
  clusters and its profiler attribute. \<open>'n\<close> is the type of tree nodes, \<open>'p\<close> the type
  of the profiler attribute: a reference into the controller's object store, or the
  profiler object itself where \<^verbatim>\<open>jsonpickle\<close> writes or rebuilds the whole object graph.
\<close>

record ('n, 'p) drain =
  sim_th :: real
  depth :: int
  max_children :: int
  max_clusters :: "int option"
  extra_delimiters :: "string list"
  root_key_to_child_node :: "'n pydict"
  id_to_cluster :: "log_cluster pydict"
  clusters :: "log_cluster list"
  drain_profiler :: 'p

text \<open>
  Modelled from the spec: the constructor \<^verbatim>\<open>Drain(...)\<close> is not defined in
  \<^verbatim>\<open>template_miner.py\<close>; the clustering engine state is created empty.
\<close>

definition Drain_init ::
  "real \<Rightarrow> int \<Rightarrow> int \<Rightarrow> int option \<Rightarrow> string list \<Rightarrow> 'p \<Rightarrow> ('n, 'p) drain" where
  "Drain_init th dp mc mcl ed pr =
     \<lparr>sim_th = th, depth = dp, max_children = mc, max_clusters = mcl, extra_delimiters = ed,
      root_key_to_child_node = empty_dict, id_to_cluster = empty_dict, clusters = [],
      drain_profiler = pr\<rparr>"

text \<open>
  The external functions. \<open>'h\<close> is the state of the persistence handler (the store
  behind it included). A call that can raise returns \<open>Inl\<close>; a call that mutates its
  object returns the object's new state also when it raises.
\<close>

record ('n, 'h) env =
  loaded_config :: config
  masker_mask :: "(string \<times> string) list \<Rightarrow> string \<Rightarrow> string"
  drain_add_log_message ::
    "('n, nat) drain \<Rightarrow> string \<Rightarrow> (exn + (log_cluster \<times> string)) \<times> ('n, nat) drain"
  get_total_cluster_size :: "('n, nat) drain \<Rightarrow> int"
  jsonpickle_dumps :: "('n, profiler_obj) drain \<Rightarrow> string"
  jsonpickle_loads :: "bytes \<Rightarrow> exn + ('n, profiler_obj) drain"
  zlib_compress :: "bytes \<Rightarrow> bytes"
  zlib_decompress :: "bytes \<Rightarrow> exn + bytes"
  b64encode :: "bytes \<Rightarrow> bytes"
  b64decode :: "bytes \<Rightarrow> exn + bytes"
  ph_load_state :: "'h \<Rightarrow> exn + bytes option"
  ph_save_state :: "'h \<Rightarrow> bytes \<Rightarrow> (exn + unit) \<times> 'h"

section \<open>The controller \<^verbatim>\<open>TemplateMiner\<close>\<close>

text \<open>
  What \<^verbatim>\<open>logger.info\<close> receives: one constructor for each message of
  \<^verbatim>\<open>template_miner.py\<close>, with the values that the message formats.
  \<open>Restored n k\<close> is "Restored n clusters with k messages"; \<open>SavingState n k b r\<close> is
  "Saving state of n clusters with k messages, b bytes, reason: r".
\<close>

datatype log_record =
    Starting
  | CheckingForSavedState
  | SavedStateNotFound
  | Restored nat int
  | SavingState nat int nat string

text \<open>
  The state of the controller: the attributes of \<^verbatim>\<open>self\<close>, the profiler objects, which
  the controller and its engine share by reference (\<open>heap\<close>, a reference is an index
  into it), and what has been logged.
\<close>

record ('n, 'h) template_miner =
  config :: config
  profiler :: nat
  persistence_handler :: "'h option"
  drain :: "('n, nat) drain"
  masker :: "(string \<times> string) list"
  last_save_time :: real
  heap :: "profiler_obj list"
  logged :: "log_record list"

definition logger_info :: "log_record \<Rightarrow> ('n, 'h) template_miner \<Rightarrow> ('n, 'h) template_miner" where
  "logger_info r m = m\<lparr>logged := logged m @ [r]\<rparr>"

text \<open>The three calls on \<^verbatim>\<open>self.profiler\<close>.\<close>

definition profiler_call ::
  "prof_event \<Rightarrow> ('n, 'h) template_miner \<Rightarrow> ('n, 'h) template_miner" where
  "profiler_call ev m = m\<lparr>heap := (heap m)[profiler m := prof_call ev (heap m ! profiler m)]\<rparr>"

definition start_section :: "string \<Rightarrow> ('n, 'h) template_miner \<Rightarrow> ('n, 'h) template_miner" where
  "start_section name m = profiler_call (StartSection name) m"

definition end_section :: "string \<Rightarrow> ('n, 'h) template_miner \<Rightarrow> ('n, 'h) template_miner" where
  "end_section name m = profiler_call (EndSection name) m"

definition report :: "int \<Rightarrow> ('n, 'h) template_miner \<Rightarrow> ('n, 'h) template_miner" where
  "report period_sec m = profiler_call (Report period_sec) m"

text \<open>
  The object graph of an engine, as \<^verbatim>\<open>jsonpickle.dumps\<close> walks it, and the engine that
  \<^verbatim>\<open>jsonpickle.loads\<close> has built, placed in the object store: its profiler is a new
  object.
\<close>

definition drain_graph :: "profiler_obj list \<Rightarrow> ('n, nat) drain \<Rightarrow> ('n, profiler_obj) drain" where
  "drain_graph hp d =
     \<lparr>sim_th = sim_th d, depth = depth d, max_children = max_children d,
      max_clusters = max_clusters d, extra_delimiters = extra_delimiters d,
      root_key_to_child_node = root_key_to_child_node d, id_to_cluster = id_to_cluster d,
      clusters = clusters d, drain_profiler = hp ! drain_profiler d\<rparr>"

definition drain_alloc :: "profiler_obj list \<Rightarrow> ('n, profiler_obj) drain \<Rightarrow> ('n, nat) drain" where
  "drain_alloc hp d =
     \<lparr>sim_th = sim_th d, depth = depth d, max_children = max_children d,
      max_clusters = max_clusters d, extra_delimiters = extra_delimiters d,
      root_key_to_child_node = root_key_to_child_node d, id_to_cluster = id_to_cluster d,
      clusters = clusters d, drain_profiler = length hp\<rparr>"

subsection \<open>\<^verbatim>\<open>load_state\<close>\<close>

text \<open>
  Lines 63 and 64: the transformation of the stored bytes before they are deserialised.
\<close>

definition decode_state :: "('n, 'h) env \<Rightarrow> bool \<Rightarrow> bytes \<Rightarrow> exn + bytes" where
  "decode_state E compress state =
     (if compress then
        (case b64decode E state of
           Inl e \<Rightarrow> Inl e
         | Inr z \<Rightarrow> zlib_decompress E z)
      else Inr state)"

text \<open>
  Lines 70 to 74: the keys are copied into a list, then each key is popped and its
  value stored under \<^verbatim>\<open>int(key)\<close>.
\<close>

definition cast_root_keys :: "'v pydict \<Rightarrow> (exn + unit) \<times> 'v pydict" where
  "cast_root_keys d = rekey_list (keys d) d"

text \<open>
  Lines 77 to 79: \<^verbatim>\<open>keys\<close> is the key view of the dictionary, and the loop pops and
  stores while it iterates over it.
\<close>

definition cast_cluster_keys :: "'v pydict \<Rightarrow> (exn + unit) \<times> 'v pydict" where
  "cast_cluster_keys d = rekey_view (ma_used d) 0 (ma_used d) d"

definition load_state ::
  "('n, 'h) env \<Rightarrow> ('n, 'h) template_miner \<Rightarrow> (exn + unit) \<times> ('n, 'h) template_miner" where
  "load_state E m =
     (let m1 = logger_info CheckingForSavedState m in
      case persistence_handler m1 of
        None \<Rightarrow> (Inl AttributeError, m1)
      | Some h \<Rightarrow>
          (case ph_load_state E h of
             Inl e \<Rightarrow> (Inl e, m1)
           | Inr None \<Rightarrow> (Inr (), logger_info SavedStateNotFound m1)
           | Inr (Some state) \<Rightarrow>
               (case decode_state E (snapshot_compress_state (config m1)) state of
                  Inl e \<Rightarrow> (Inl e, m1)
                | Inr state' \<Rightarrow>
                    (case jsonpickle_loads E state' of
                       Inl e \<Rightarrow> (Inl e, m1)
                     | Inr loaded \<Rightarrow>
                         (let d = drain_alloc (heap m1) loaded;
                              m2 = m1\<lparr>heap := heap m1 @ [drain_profiler loaded]\<rparr> in
                          case cast_root_keys (root_key_to_child_node d) of
                            (Inl e, k2c) \<Rightarrow> (Inl e, m2)
                          | (Inr u, k2c) \<Rightarrow>
                              (case cast_cluster_keys (id_to_cluster d) of
                                 (Inl e, i2c) \<Rightarrow> (Inl e, m2)
                               | (Inr u', i2c) \<Rightarrow>
                                   (let d' = d\<lparr>root_key_to_child_node := k2c,
                                               id_to_cluster := i2c,
                                               drain_profiler := profiler m2\<rparr>;
                                        m3 = m2\<lparr>drain := d'\<rparr> in
                                    (Inr (),
                                     logger_info
                                       (Restored (length (clusters d'))
                                          (get_total_cluster_size E d')) m3))))))))"

subsection \<open>\<^verbatim>\<open>save_state\<close>\<close>

text \<open>
  Lines 88 to 90: the transformation of the serialised state before it goes to the
  store.
\<close>

definition encode_state :: "('n, 'h) env \<Rightarrow> bool \<Rightarrow> bytes \<Rightarrow> bytes" where
  "encode_state E compress state =
     (if compress then b64encode E (zlib_compress E state) else state)"

definition snapshot_bytes :: "('n, 'h) env \<Rightarrow> ('n, 'h) template_miner \<Rightarrow> bytes" where
  "snapshot_bytes E m =
     encode_state E (snapshot_compress_state (config m))
       (encode_utf8 (jsonpickle_dumps E (drain_graph (heap m) (drain m))))"

definition save_state ::
  "('n, 'h) env \<Rightarrow> ('n, 'h) template_miner \<Rightarrow> string \<Rightarrow>
   (exn + unit) \<times> ('n, 'h) template_miner" where
  "save_state E m snapshot_reason =
     (let state = snapshot_bytes E m;
          m1 = logger_info
                 (SavingState (length (clusters (drain m))) (get_total_cluster_size E (drain m))
                    (length state) snapshot_reason) m in
      case persistence_handler m1 of
        None \<Rightarrow> (Inl AttributeError, m1)
      | Some h \<Rightarrow>
          (case ph_save_state E h state of
             (r, h') \<Rightarrow> (r, m1\<lparr>persistence_handler := Some h'\<rparr>)))"

subsection \<open>\<^verbatim>\<open>get_snapshot_reason\<close>\<close>

text \<open>
  \<open>now\<close> is what \<^verbatim>\<open>time.time()\<close> returns on line 101. The result \<open>None\<close> is Python's
  \<^verbatim>\<open>None\<close>.
\<close>

definition get_snapshot_reason ::
  "('n, 'h) template_miner \<Rightarrow> string \<Rightarrow> int \<Rightarrow> real \<Rightarrow> string option" where
  "get_snapshot_reason m change_type cid now =
     (if change_type \<noteq> ''none'' then Some (change_type @ '' ('' @ str_int cid @ '')'')
      else
        (let diff_time_sec = now - last_save_time m in
         if diff_time_sec \<ge> snapshot_interval_minutes (config m) * 60 then Some ''periodic''
         else None))"

text \<open>The truth value of \<^verbatim>\<open>snapshot_reason\<close> in \<^verbatim>\<open>if snapshot_reason:\<close>.\<close>

fun truthy :: "string option \<Rightarrow> bool" where
  "truthy None = False"
| "truthy (Some s) = (s \<noteq> [])"

subsection \<open>\<^verbatim>\<open>add_log_message\<close>\<close>

datatype pyval = PyStr string | PyInt int

text \<open>The dictionary literal of lines 117 to 123, as its items in order.\<close>

definition result_dict ::
  "string \<Rightarrow> log_cluster \<Rightarrow> ('n, nat) drain \<Rightarrow> (string \<times> pyval) list" where
  "result_dict change_type cluster d =
     [(''change_type'', PyStr change_type),
      (''cluster_id'', PyInt (cluster_id cluster)),
      (''cluster_size'', PyInt (size_lc cluster)),
      (''template_mined'', PyStr (get_template cluster)),
      (''cluster_count'', PyInt (int (length (clusters d))))]"

text \<open>
  Lines 125 to 131. \<open>now\<close> is the clock as \<^verbatim>\<open>get_snapshot_reason\<close> reads it,
  \<open>now'\<close> the clock as line 130 reads it after the save.
\<close>

definition snapshot_step ::
  "('n, 'h) env \<Rightarrow> ('n, 'h) template_miner \<Rightarrow> string \<Rightarrow> int \<Rightarrow> real \<Rightarrow> real \<Rightarrow>
   (exn + unit) \<times> ('n, 'h) template_miner" where
  "snapshot_step E m change_type cid now now' =
     (if persistence_handler m \<noteq> None then
        (let m1 = start_section ''save_state'' m;
             snapshot_reason = get_snapshot_reason m1 change_type cid now in
         if truthy snapshot_reason then
           (case save_state E m1 (the snapshot_reason) of
              (Inl e, m2) \<Rightarrow> (Inl e, m2)
            | (Inr u, m2) \<Rightarrow> (Inr (), end_section [] (m2\<lparr>last_save_time := now'\<rparr>)))
         else (Inr (), end_section [] m1))
      else (Inr (), m))"

definition add_log_message ::
  "('n, 'h) env \<Rightarrow> ('n, 'h) template_miner \<Rightarrow> string \<Rightarrow> real \<Rightarrow> real \<Rightarrow>
   (exn + (string \<times> pyval) list) \<times> ('n, 'h) template_miner" where
  "add_log_message E m log_message now now' =
     (let m1 = start_section ''total'' m;
          m2 = start_section ''mask'' m1;
          masked_content = masker_mask E (masker m2) log_message;
          m3 = end_section [] m2;
          m4 = start_section ''drain'' m3 in
      case drain_add_log_message E (drain m4) masked_content of
        (Inl e, d) \<Rightarrow> (Inl e, m4\<lparr>drain := d\<rparr>)
      | (Inr (cluster, change_type), d) \<Rightarrow>
          (let m5 = end_section ''drain'' (m4\<lparr>drain := d\<rparr>);
               result = result_dict change_type cluster (drain m5) in
           case snapshot_step E m5 change_type (cluster_id cluster) now now' of
             (Inl e, m6) \<Rightarrow> (Inl e, m6)
           | (Inr u, m6) \<Rightarrow>
               (let m7 = end_section ''total'' m6;
                    m8 = report (profiling_report_sec (config m7)) m7 in
                (Inr result, m8))))"

subsection \<open>\<^verbatim>\<open>__init__\<close>\<close>

text \<open>
  \<open>now\<close> is the clock as line 51 reads it. When the constructor raises there is no
  controller.
\<close>

definition TemplateMiner_init ::
  "('n, 'h) env \<Rightarrow> 'h option \<Rightarrow> config option \<Rightarrow> real \<Rightarrow> exn + ('n, 'h) template_miner" where
  "TemplateMiner_init E handler cfg now =
     (let cfg1 = (case cfg of None \<Rightarrow> loaded_config E | Some c \<Rightarrow> c);
          hp = [NullProfiler];
          pr = 0;
          hp1 = (if profiling_enabled cfg1 then hp @ [SimpleProfiler []] else hp);
          pr1 = (if profiling_enabled cfg1 then length hp else pr);
          m = \<lparr>config = cfg1, profiler = pr1, persistence_handler = handler,
               drain = Drain_init (drain_sim_th cfg1) (drain_depth cfg1) (drain_max_children cfg1)
                         (drain_max_clusters cfg1) (drain_extra_delimiters cfg1) pr1,
               masker = masking_instructions cfg1, last_save_time = now,
               heap = hp1, logged = [Starting]\<rparr> in
      if handler \<noteq> None then
        (case load_state E m of
           (Inl e, m') \<Rightarrow> Inl e
         | (Inr u, m') \<Rightarrow> Inr m')
      else Inr m)"

section \<open>Observing the controller\<close>

text \<open>
  \<^verbatim>\<open>save_state\<close> logs one "Saving state" message each time it is called, with the
  reason it was given. The snapshots attempted between two states of the controller are
  the reasons of the messages logged in between.
\<close>

fun saving_reason :: "log_record \<Rightarrow> string option" where
  "saving_reason (SavingState n k b r) = Some r"
| "saving_reason Starting = None"
| "saving_reason CheckingForSavedState = None"
| "saving_reason SavedStateNotFound = None"
| "saving_reason (Restored n k) = None"

definition snapshots_attempted ::
  "('n, 'h) template_miner \<Rightarrow> ('n, 'h) template_miner \<Rightarrow> string list" where
  "snapshots_attempted m m' = List.map_filter saving_reason (drop (length (logged m)) (logged m'))"

text \<open>
  The state of the controller on line 125, when the engine has returned and left \<open>d\<close>
  as its state.
\<close>

definition engine_done ::
  "('n, 'h) template_miner \<Rightarrow> ('n, nat) drain \<Rightarrow> ('n, 'h) template_miner" where
  "engine_done m d =
     end_section ''drain''
       ((start_section ''drain'' (end_section [] (start_section ''mask'' (start_section ''total'' m))))
          \<lparr>drain := d\<rparr>)"

text \<open>
  A caller that processes one message after the other and goes on after an exception.
  Each message comes with the two clock readings of its call.
\<close>

fun feed ::
  "('n, 'h) env \<Rightarrow> ('n, 'h) template_miner \<Rightarrow> (string \<times> real \<times> real) list \<Rightarrow>
   (exn + (string \<times> pyval) list) list" where
  "feed E m [] = []"
| "feed E m ((log_message, now, now') # rest) =
     (case add_log_message E m log_message now now' of
        (r, m') \<Rightarrow> r # feed E m' rest)"

text \<open>Two outcomes agree when they are not two different result records.\<close>

fun agree :: "exn + (string \<times> pyval) list \<Rightarrow> exn + (string \<times> pyval) list \<Rightarrow> bool" where
  "agree (Inr x) (Inr y) = (x = y)"
| "agree (Inl e) r = True"
| "agree r (Inl e) = True"

text \<open>Two engine states that differ at most in the profiler they refer to.\<close>

definition same_engine :: "('n, nat) drain \<Rightarrow> ('n, nat) drain \<Rightarrow> bool" where
  "same_engine d1 d2 = (d2 = d1\<lparr>drain_profiler := drain_profiler d2\<rparr>)"

section \<open>A concrete environment\<close>

text \<open>
  The closed instances below run the controller against these collaborators: a store
  that keeps the last bytes it was given, or raises on every save when it is broken; an
  engine that puts equal lines into one cluster; a serialisation that keeps the number
  of clusters and, as \<^verbatim>\<open>jsonpickle\<close> does by default, gives the keys of every mapping
  back as strings; a compression that prepends one byte; an encoding of each byte as
  two letters.
\<close>

record demo_store =
  stored :: "bytes option"
  broken :: bool

definition demo_load_state :: "demo_store \<Rightarrow> exn + bytes option" where
  "demo_load_state h = Inr (stored h)"

definition demo_save_state :: "demo_store \<Rightarrow> bytes \<Rightarrow> (exn + unit) \<times> demo_store" where
  "demo_save_state h b =
     (if broken h then (Inl (LibraryError ''OSError''), h) else (Inr (), h\<lparr>stored := Some b\<rparr>))"

definition demo_add_log_message ::
  "(unit, nat) drain \<Rightarrow> string \<Rightarrow> (exn + (log_cluster \<times> string)) \<times> (unit, nat) drain" where
  "demo_add_log_message d content =
     (case find (\<lambda>c. template c = content) (clusters d) of
        Some c \<Rightarrow>
          (let c' = c\<lparr>size_lc := size_lc c + 1\<rparr> in
           (Inr (c', ''none''),
            d\<lparr>clusters := map (\<lambda>x. if cluster_id x = cluster_id c then c' else x) (clusters d),
              id_to_cluster := dict_setitem (id_to_cluster d) (KInt (cluster_id c)) c'\<rparr>))
      | None \<Rightarrow>
          (let c = \<lparr>cluster_id = int (length (clusters d)) + 1, size_lc = 1, template = content\<rparr> in
           (Inr (c, ''cluster_created''),
            d\<lparr>clusters := clusters d @ [c],
              id_to_cluster := dict_setitem (id_to_cluster d) (KInt (cluster_id c)) c,
              root_key_to_child_node :=
                dict_setitem (root_key_to_child_node d) (KInt (int (length content))) ()\<rparr>)))"

definition demo_cluster :: "nat \<Rightarrow> log_cluster" where
  "demo_cluster i = \<lparr>cluster_id = int i, size_lc = 1, template = CHR ''t'' # str_nat i\<rparr>"

definition demo_restored :: "nat \<Rightarrow> (unit, profiler_obj) drain" where
  "demo_restored n =
     \<lparr>sim_th = 0.4, depth = 4, max_children = 100, max_clusters = None, extra_delimiters = [],
      root_key_to_child_node = dict_of (map (\<lambda>i. (KStr (str_nat i), ())) [1..<Suc n]),
      id_to_cluster = dict_of (map (\<lambda>i. (KStr (str_nat i), demo_cluster i)) [1..<Suc n]),
      clusters = map demo_cluster [1..<Suc n],
      drain_profiler = SimpleProfiler [StartSection ''total'']\<rparr>"

definition demo_dumps :: "(unit, profiler_obj) drain \<Rightarrow> string" where
  "demo_dumps g = replicate (length (clusters g)) CHR ''c''"

definition demo_loads :: "bytes \<Rightarrow> exn + (unit, profiler_obj) drain" where
  "demo_loads b =
     (if list_all (\<lambda>x. x = 99) b then Inr (demo_restored (length b))
      else Inl (LibraryError ''JSONDecodeError''))"

definition demo_compress :: "bytes \<Rightarrow> bytes" where
  "demo_compress s = 120 # s"

definition demo_decompress :: "bytes \<Rightarrow> exn + bytes" where
  "demo_decompress z =
     (case z of
        [] \<Rightarrow> Inl (LibraryError ''zlib.error'')
      | x # s \<Rightarrow> if x = 120 then Inr s else Inl (LibraryError ''zlib.error''))"

definition demo_b64encode :: "bytes \<Rightarrow> bytes" where
  "demo_b64encode s = concat (map (\<lambda>x. [65 + drop_bit 4 x, 65 + (x AND 15)]) s)"

fun demo_b64decode :: "bytes \<Rightarrow> exn + bytes" where
  "demo_b64decode [] = Inr []"
| "demo_b64decode [x] = Inl (LibraryError ''binascii.Error'')"
| "demo_b64decode (x # y # s) =
     (if 65 \<le> x \<and> x < 81 \<and> 65 \<le> y \<and> y < 81 then
        (case demo_b64decode s of
           Inl e \<Rightarrow> Inl e
         | Inr r \<Rightarrow> Inr ((push_bit 4 (x - 65) OR (y - 65)) # r))
      else Inl (LibraryError ''binascii.Error''))"

definition demo_config :: config where
  "demo_config =
     \<lparr>profiling_enabled = False, drain_sim_th = 0.4, drain_depth = 4, drain_max_children = 100,
      drain_max_clusters = None, drain_extra_delimiters = [], masking_instructions = [],
      snapshot_compress_state = True, snapshot_interval_minutes = 5, profiling_report_sec = 30\<rparr>"

definition demo_env :: "(unit, demo_store) env" where
  "demo_env =
     \<lparr>loaded_config = demo_config,
      masker_mask = (\<lambda>instructions s. s),
      drain_add_log_message = demo_add_log_message,
      get_total_cluster_size = (\<lambda>d. sum_list (map size_lc (clusters d))),
      jsonpickle_dumps = demo_dumps,
      jsonpickle_loads = demo_loads,
      zlib_compress = demo_compress,
      zlib_decompress = demo_decompress,
      b64encode = demo_b64encode,
      b64decode = demo_b64decode,
      ph_load_state = demo_load_state,
      ph_save_state = demo_save_state\<rparr>"

definition empty_store :: demo_store where
  "empty_store = \<lparr>stored = None, broken = False\<rparr>"

definition broken_store :: demo_store where
  "broken_store = \<lparr>stored = None, broken = True\<rparr>"

text \<open>A store that holds the given bytes.\<close>

definition corrupt_store :: "bytes \<Rightarrow> demo_store" where
  "corrupt_store b = \<lparr>stored = Some b, broken = False\<rparr>"

text \<open>The store after a controller has saved an engine with \<open>n\<close> clusters.\<close>

definition store_of :: "nat \<Rightarrow> demo_store" where
  "store_of n =
     \<lparr>stored = Some (demo_b64encode (demo_compress (encode_utf8 (replicate n CHR ''c'')))),
      broken = False\<rparr>"

text \<open>
  The controller after \<^verbatim>\<open>TemplateMiner(handler, config)\<close> has returned; the clock read
  100 on line 51.
\<close>

definition demo_miner :: "demo_store option \<Rightarrow> (unit, demo_store) template_miner" where
  "demo_miner handler = projr (TemplateMiner_init demo_env handler (Some demo_config) 100)"

text \<open>The controller on line 52, before \<^verbatim>\<open>load_state\<close> runs.\<close>

definition demo_unloaded :: "demo_store \<Rightarrow> (unit, demo_store) template_miner" where
  "demo_unloaded handler = (demo_miner None)\<lparr>persistence_handler := Some handler\<rparr>"

text \<open>The same controller after it has processed the line "hello"; the clock read 101 and 102.\<close>

definition demo_miner1 :: "demo_store option \<Rightarrow> (unit, demo_store) template_miner" where
  "demo_miner1 handler = snd (add_log_message demo_env (demo_miner handler) ''hello'' 101 102)"

section \<open>Properties of the controller\<close>

subsection \<open>The profiler calls leave the rest of the controller alone\<close>

lemma profiler_call_fields [simp]:
  "config (profiler_call ev m) = config m"
  "profiler (profiler_call ev m) = profiler m"
  "persistence_handler (profiler_call ev m) = persistence_handler m"
  "drain (profiler_call ev m) = drain m"
  "masker (profiler_call ev m) = masker m"
  "last_save_time (profiler_call ev m) = last_save_time m"
  "logged (profiler_call ev m) = logged m"
  by (simp_all add: profiler_call_def)

lemma section_fields [simp]:
  "config (start_section n m) = config m"
  "profiler (start_section n m) = profiler m"
  "persistence_handler (start_section n m) = persistence_handler m"
  "drain (start_section n m) = drain m"
  "masker (start_section n m) = masker m"
  "last_save_time (start_section n m) = last_save_time m"
  "logged (start_section n m) = logged m"
  "config (end_section n m) = config m"
  "profiler (end_section n m) = profiler m"
  "persistence_handler (end_section n m) = persistence_handler m"
  "drain (end_section n m) = drain m"
  "masker (end_section n m) = masker m"
  "last_save_time (end_section n m) = last_save_time m"
  "logged (end_section n m) = logged m"
  "config (report k m) = config m"
  "profiler (report k m) = profiler m"
  "persistence_handler (report k m) = persistence_handler m"
  "drain (report k m) = drain m"
  "masker (report k m) = masker m"
  "last_save_time (report k m) = last_save_time m"
  "logged (report k m) = logged m"
  by (simp_all add: start_section_def end_section_def report_def)

lemma engine_done_fields [simp]:
  "config (engine_done m d) = config m"
  "profiler (engine_done m d) = profiler m"
  "persistence_handler (engine_done m d) = persistence_handler m"
  "drain (engine_done m d) = d"
  "masker (engine_done m d) = masker m"
  "last_save_time (engine_done m d) = last_save_time m"
  "logged (engine_done m d) = logged m"
  by (simp_all add: engine_done_def)

lemma get_snapshot_reason_cong:
  "last_save_time m' = last_save_time m \<Longrightarrow> config m' = config m \<Longrightarrow>
   get_snapshot_reason m' ct cid now = get_snapshot_reason m ct cid now"
  by (simp add: get_snapshot_reason_def)

lemma snapshots_attempted_append:
  "logged m' = logged m @ xs \<Longrightarrow> snapshots_attempted m m' = List.map_filter saving_reason xs"
  by (simp add: snapshots_attempted_def)

subsection \<open>One call of \<open>save_state\<close>, and lines 125 to 131 case by case\<close>

lemma save_state_eq:
  assumes "persistence_handler m = Some h"
  shows "save_state E m r =
           (fst (ph_save_state E h (snapshot_bytes E m)),
            m\<lparr>logged := logged m @
                 [SavingState (length (clusters (drain m))) (get_total_cluster_size E (drain m))
                    (length (snapshot_bytes E m)) r],
              persistence_handler := Some (snd (ph_save_state E h (snapshot_bytes E m)))\<rparr>)"
  using assms by (simp add: save_state_def Let_def logger_info_def split: prod.splits)

lemma snapshot_step_config:
  "config (snd (snapshot_step E m ct cid now now')) = config m"
  by (auto simp: snapshot_step_def save_state_def Let_def logger_info_def
      split: option.splits prod.splits sum.splits)

lemma snapshot_step_none:
  "persistence_handler m = None \<Longrightarrow> snapshot_step E m ct cid now now' = (Inr (), m)"
  by (simp add: snapshot_step_def)

lemma snapshot_step_skip:
  assumes "persistence_handler m = Some h" "\<not> truthy (get_snapshot_reason m ct cid now)"
  shows "snapshot_step E m ct cid now now' =
           (Inr (), end_section [] (start_section ''save_state'' m))"
  using assms
  by (simp add: snapshot_step_def Let_def
      get_snapshot_reason_cong[of "start_section ''save_state'' m" m])

lemma snapshot_step_save:
  assumes "persistence_handler m = Some h" "get_snapshot_reason m ct cid now = Some r" "r \<noteq> []"
  shows "snapshot_step E m ct cid now now' =
     (let m1 = start_section ''save_state'' m;
          b = snapshot_bytes E m1;
          m2 = m1\<lparr>logged := logged m @
                 [SavingState (length (clusters (drain m))) (get_total_cluster_size E (drain m))
                    (length b) r],
              persistence_handler := Some (snd (ph_save_state E h b))\<rparr> in
      case fst (ph_save_state E h b) of
        Inl e \<Rightarrow> (Inl e, m2)
      | Inr u \<Rightarrow> (Inr (), end_section [] (m2\<lparr>last_save_time := now'\<rparr>)))"
proof -
  have r: "get_snapshot_reason (start_section ''save_state'' m) ct cid now = Some r"
    using assms(2) by (simp add: get_snapshot_reason_cong[of "start_section ''save_state'' m" m])
  have h: "persistence_handler (start_section ''save_state'' m) = Some h"
    using assms(1) by simp
  show ?thesis
    using assms(1,3) r
    by (simp add: snapshot_step_def Let_def save_state_eq[OF h] split: sum.splits)
qed

subsection \<open>\<open>add_log_message\<close>, given what the engine returns\<close>

lemma add_log_message_engine_ok:
  assumes "drain_add_log_message E (drain m) (masker_mask E (masker m) msg) = (Inr (c, ct), d)"
  shows "add_log_message E m msg now now' =
           (case snapshot_step E (engine_done m d) ct (cluster_id c) now now' of
              (Inl e, m6) \<Rightarrow> (Inl e, m6)
            | (Inr u, m6) \<Rightarrow>
                (Inr (result_dict ct c d),
                 report (profiling_report_sec (config m)) (end_section ''total'' m6)))"
  using assms snapshot_step_config[of E "engine_done m d" ct "cluster_id c" now now']
  by (auto simp: add_log_message_def Let_def engine_done_def split: prod.splits sum.splits)

lemma add_log_message_engine_raises:
  assumes "drain_add_log_message E (drain m) (masker_mask E (masker m) msg) = (Inl e, d)"
  shows "add_log_message E m msg now now' =
           (Inl e,
            (start_section ''drain'' (end_section [] (start_section ''mask''
               (start_section ''total'' m))))\<lparr>drain := d\<rparr>)"
  using assms by (simp add: add_log_message_def Let_def)

subsection \<open>The snapshot policy\<close>

lemma snapshot_reason_structural:
  "ct \<noteq> ''none'' \<Longrightarrow>
   get_snapshot_reason m0 ct cid now = Some (ct @ '' ('' @ str_int cid @ '')'')"
  by (simp add: get_snapshot_reason_def)

lemma snapshot_reason_none:
  "get_snapshot_reason m0 ''none'' cid now =
     (if now - last_save_time m0 \<ge> snapshot_interval_minutes (config m0) * 60
      then Some ''periodic'' else None)"
  by (simp add: get_snapshot_reason_def Let_def)

subsection \<open>Who writes \<open>last_save_time\<close>\<close>

lemma load_state_last_save_time:
  "last_save_time (snd (load_state E m)) = last_save_time m"
  by (auto simp: load_state_def Let_def logger_info_def
      split: option.splits sum.splits prod.splits)

lemma save_state_last_save_time:
  "last_save_time (snd (save_state E m r)) = last_save_time m"
  by (auto simp: save_state_def Let_def logger_info_def
      split: option.splits sum.splits prod.splits)

lemma add_log_message_last_save_time:
  "last_save_time (snd (add_log_message E m msg now now')) =
     (if \<not> isl (fst (add_log_message E m msg now now'))
         \<and> snapshots_attempted m (snd (add_log_message E m msg now now')) \<noteq> []
      then now' else last_save_time m)"
proof (cases "drain_add_log_message E (drain m) (masker_mask E (masker m) msg)")
  case (Pair r d)
  show ?thesis
  proof (cases r)
    case (Inl e)
    have eng: "drain_add_log_message E (drain m) (masker_mask E (masker m) msg) = (Inl e, d)"
      using Pair Inl by simp
    show ?thesis
      by (simp add: add_log_message_engine_raises[OF eng])
  next
    case (Inr p)
    obtain c ct where p: "p = (c, ct)" by (cases p)
    have eng: "drain_add_log_message E (drain m) (masker_mask E (masker m) msg) = (Inr (c, ct), d)"
      using Pair Inr p by simp
    show ?thesis
    proof (cases "persistence_handler m")
      case None
      then show ?thesis
        by (simp add: add_log_message_engine_ok[OF eng] snapshot_step_none snapshots_attempted_def)
    next
      case (Some h)
      then have h: "persistence_handler (engine_done m d) = Some h" by simp
      show ?thesis
      proof (cases "get_snapshot_reason (engine_done m d) ct (cluster_id c) now")
        case None
        then have f: "\<not> truthy (get_snapshot_reason (engine_done m d) ct (cluster_id c) now)"
          by simp
        show ?thesis
          by (simp add: add_log_message_engine_ok[OF eng] snapshot_step_skip[OF h f]
              snapshots_attempted_def)
      next
        case (Some r)
        note r = this
        show ?thesis
        proof (cases "r = []")
          case True
          then have f: "\<not> truthy (get_snapshot_reason (engine_done m d) ct (cluster_id c) now)"
            using r by simp
          show ?thesis
            by (simp add: add_log_message_engine_ok[OF eng] snapshot_step_skip[OF h f]
                snapshots_attempted_def)
        next
          case False
          show ?thesis
            by (simp add: add_log_message_engine_ok[OF eng] snapshot_step_save[OF h r False]
                Let_def snapshots_attempted_def map_filter_simps split: sum.splits)
        qed
      qed
    qed
  qed
qed

lemma save_failure_propagates:
  assumes h: "persistence_handler m = Some h"
      and eng: "drain_add_log_message E (drain m) (masker_mask E (masker m) msg) = (Inr (c, ct), d)"
      and t: "truthy (get_snapshot_reason m ct (cluster_id c) now)"
      and f: "fst (ph_save_state E h
               (snapshot_bytes E (start_section ''save_state'' (engine_done m d)))) = Inl e"
  shows "fst (add_log_message E m msg now now') = Inl e
          \<and> last_save_time (snd (add_log_message E m msg now now')) = last_save_time m"
proof -
  have h': "persistence_handler (engine_done m d) = Some h" using h by simp
  have eq: "get_snapshot_reason (engine_done m d) ct (cluster_id c) now =
            get_snapshot_reason m ct (cluster_id c) now"
    by (rule get_snapshot_reason_cong) simp_all
  obtain r where r0: "get_snapshot_reason m ct (cluster_id c) now = Some r"
    using t by (cases "get_snapshot_reason m ct (cluster_id c) now") simp_all
  have ne: "r \<noteq> []" using t r0 by simp
  have r: "get_snapshot_reason (engine_done m d) ct (cluster_id c) now = Some r"
    using eq r0 by simp
  show ?thesis
    using f
    by (simp add: add_log_message_engine_ok[OF eng] snapshot_step_save[OF h' r ne] Let_def)
qed

subsection \<open>\<open>load_state\<close> and the constructor, case by case\<close>

lemma load_state_not_found:
  assumes "persistence_handler m = Some h" "ph_load_state E h = Inr None"
  shows "load_state E m =
           (Inr (), m\<lparr>logged := logged m @ [CheckingForSavedState, SavedStateNotFound]\<rparr>)"
  using assms by (simp add: load_state_def Let_def logger_info_def)

lemma load_state_undecodable:
  assumes "persistence_handler m = Some h" "ph_load_state E h = Inr (Some state)"
      and "decode_state E (snapshot_compress_state (config m)) state = Inl e"
  shows "load_state E m = (Inl e, m\<lparr>logged := logged m @ [CheckingForSavedState]\<rparr>)"
  using assms by (simp add: load_state_def Let_def logger_info_def)

lemma load_state_undeserialisable:
  assumes "persistence_handler m = Some h" "ph_load_state E h = Inr (Some state)"
      and "decode_state E (snapshot_compress_state (config m)) state = Inr s"
      and "jsonpickle_loads E s = Inl e"
  shows "load_state E m = (Inl e, m\<lparr>logged := logged m @ [CheckingForSavedState]\<rparr>)"
  using assms by (simp add: load_state_def Let_def logger_info_def)

lemma load_state_loaded:
  assumes "persistence_handler m = Some h" "ph_load_state E h = Inr (Some state)"
      and "decode_state E (snapshot_compress_state (config m)) state = Inr s"
      and "jsonpickle_loads E s = Inr loaded"
  shows "load_state E m =
     (let m2 = m\<lparr>logged := logged m @ [CheckingForSavedState],
                  heap := heap m @ [drain_profiler loaded]\<rparr>;
          d = drain_alloc (heap m) loaded in
      case cast_root_keys (root_key_to_child_node d) of
        (Inl e, k2c) \<Rightarrow> (Inl e, m2)
      | (Inr u, k2c) \<Rightarrow>
          (case cast_cluster_keys (id_to_cluster d) of
             (Inl e, i2c) \<Rightarrow> (Inl e, m2)
           | (Inr u', i2c) \<Rightarrow>
               (let d' = d\<lparr>root_key_to_child_node := k2c, id_to_cluster := i2c,
                           drain_profiler := profiler m\<rparr> in
                (Inr (),
                 m2\<lparr>drain := d',
                    logged := logged m @ [CheckingForSavedState,
                      Restored (length (clusters d')) (get_total_cluster_size E d')]\<rparr>))))"
  using assms
  by (simp add: load_state_def Let_def logger_info_def split: prod.splits sum.splits)

lemma decode_state_fails:
  "decode_state E c state = Inl e \<longleftrightarrow>
     c \<and> (b64decode E state = Inl e
          \<or> (\<exists>z. b64decode E state = Inr z \<and> zlib_decompress E z = Inl e))"
  by (auto simp: decode_state_def split: sum.splits)

lemma init_with_handler:
  "TemplateMiner_init E (Some h) cfg now =
     (case load_state E ((projr (TemplateMiner_init E None cfg now))\<lparr>persistence_handler := Some h\<rparr>) of
        (Inl e, m') \<Rightarrow> Inl e
      | (Inr u, m') \<Rightarrow> Inr m')"
  by (simp add: TemplateMiner_init_def Let_def split: prod.splits sum.splits)

lemma init_without_handler_fields:
  "persistence_handler (projr (TemplateMiner_init E None cfg now)) = None"
  "config (projr (TemplateMiner_init E None cfg now)) =
     (case cfg of None \<Rightarrow> loaded_config E | Some c \<Rightarrow> c)"
  "clusters (drain (projr (TemplateMiner_init E None cfg now))) = []"
  "items (id_to_cluster (drain (projr (TemplateMiner_init E None cfg now)))) = []"
  "items (root_key_to_child_node (drain (projr (TemplateMiner_init E None cfg now)))) = []"
  "last_save_time (projr (TemplateMiner_init E None cfg now)) = now"
  "logged (projr (TemplateMiner_init E None cfg now)) = [Starting]"
  "profiler (projr (TemplateMiner_init E None cfg now))
     < length (heap (projr (TemplateMiner_init E None cfg now)))"
  "drain_profiler (drain (projr (TemplateMiner_init E None cfg now)))
     = profiler (projr (TemplateMiner_init E None cfg now))"
  by (simp_all add: TemplateMiner_init_def Let_def Drain_init_def items_def empty_dict_def live_def)

lemma init_without_handler_returns:
  "TemplateMiner_init E None cfg now = Inr (projr (TemplateMiner_init E None cfg now))"
  by (simp add: TemplateMiner_init_def Let_def)

subsection \<open>What \<open>add_log_message\<close> returns and leaves as the engine state\<close>

lemma add_log_message_drain:
  "drain (snd (add_log_message E m msg now now')) =
     snd (drain_add_log_message E (drain m) (masker_mask E (masker m) msg))"
proof (cases "drain_add_log_message E (drain m) (masker_mask E (masker m) msg)")
  case (Pair r d)
  show ?thesis
  proof (cases r)
    case (Inl e)
    have eng: "drain_add_log_message E (drain m) (masker_mask E (masker m) msg) = (Inl e, d)"
      using Pair Inl by simp
    show ?thesis
      by (simp add: add_log_message_engine_raises[OF eng] eng)
  next
    case (Inr p)
    obtain c ct where p: "p = (c, ct)" by (cases p)
    have eng: "drain_add_log_message E (drain m) (masker_mask E (masker m) msg) = (Inr (c, ct), d)"
      using Pair Inr p by simp
    have "drain (snd (snapshot_step E x ct (cluster_id c) now now')) = drain x"
      for x :: "('a, 'b) template_miner"
      by (auto simp: snapshot_step_def save_state_def Let_def logger_info_def
          split: option.splits prod.splits sum.splits)
    from this[of "engine_done m d"] show ?thesis
      by (cases "snapshot_step E (engine_done m d) ct (cluster_id c) now now'")
        (auto simp: add_log_message_engine_ok[OF eng] eng split: sum.splits)
  qed
qed

lemma add_log_message_outcome:
  "fst (add_log_message E m msg now now') =
     (case fst (drain_add_log_message E (drain m) (masker_mask E (masker m) msg)) of
        Inl e \<Rightarrow> Inl e
      | Inr (c, ct) \<Rightarrow>
          Inr (result_dict ct c
                 (snd (drain_add_log_message E (drain m) (masker_mask E (masker m) msg)))))
   \<or> (isl (fst (add_log_message E m msg now now'))
       \<and> snapshots_attempted m (snd (add_log_message E m msg now now')) \<noteq> [])"
proof (cases "drain_add_log_message E (drain m) (masker_mask E (masker m) msg)")
  case (Pair r d)
  show ?thesis
  proof (cases r)
    case (Inl e)
    have eng: "drain_add_log_message E (drain m) (masker_mask E (masker m) msg) = (Inl e, d)"
      using Pair Inl by simp
    show ?thesis
      by (simp add: add_log_message_engine_raises[OF eng] eng)
  next
    case (Inr p)
    obtain c ct where p: "p = (c, ct)" by (cases p)
    have eng: "drain_add_log_message E (drain m) (masker_mask E (masker m) msg) = (Inr (c, ct), d)"
      using Pair Inr p by simp
    show ?thesis
    proof (cases "persistence_handler m")
      case None
      then show ?thesis
        by (simp add: add_log_message_engine_ok[OF eng] snapshot_step_none eng)
    next
      case (Some h)
      then have h: "persistence_handler (engine_done m d) = Some h" by simp
      show ?thesis
      proof (cases "get_snapshot_reason (engine_done m d) ct (cluster_id c) now")
        case None
        then have f: "\<not> truthy (get_snapshot_reason (engine_done m d) ct (cluster_id c) now)"
          by simp
        show ?thesis
          by (simp add: add_log_message_engine_ok[OF eng] snapshot_step_skip[OF h f] eng)
      next
        case (Some r)
        note r = this
        show ?thesis
        proof (cases "r = []")
          case True
          then have f: "\<not> truthy (get_snapshot_reason (engine_done m d) ct (cluster_id c) now)"
            using r by simp
          show ?thesis
            by (simp add: add_log_message_engine_ok[OF eng] snapshot_step_skip[OF h f] eng)
        next
          case False
          show ?thesis
            by (simp add: add_log_message_engine_ok[OF eng] snapshot_step_save[OF h r False]
                Let_def snapshots_attempted_def map_filter_simps eng split: sum.splits)
        qed
      qed
    qed
  qed
qed

lemma add_log_message_without_handler:
  assumes "persistence_handler m = None"
  shows "fst (add_log_message E m msg now now') =
     (case fst (drain_add_log_message E (drain m) (masker_mask E (masker m) msg)) of
        Inl e \<Rightarrow> Inl e
      | Inr (c, ct) \<Rightarrow>
          Inr (result_dict ct c
                 (snd (drain_add_log_message E (drain m) (masker_mask E (masker m) msg)))))"
proof (cases "drain_add_log_message E (drain m) (masker_mask E (masker m) msg)")
  case (Pair r d)
  show ?thesis
  proof (cases r)
    case (Inl e)
    have eng: "drain_add_log_message E (drain m) (masker_mask E (masker m) msg) = (Inl e, d)"
      using Pair Inl by simp
    show ?thesis
      by (simp add: add_log_message_engine_raises[OF eng] eng)
  next
    case (Inr p)
    obtain c ct where p: "p = (c, ct)" by (cases p)
    have eng: "drain_add_log_message E (drain m) (masker_mask E (masker m) msg) = (Inr (c, ct), d)"
      using Pair Inr p by simp
    show ?thesis
      using assms by (simp add: add_log_message_engine_ok[OF eng] snapshot_step_none eng)
  qed
qed

section \<open>The claims\<close>

text \<open>
  C8. Whenever the engine returns a cluster and a change type for the masked line,
  \<open>add_log_message\<close> returns the dictionary with exactly the five keys
  \<^verbatim>\<open>change_type\<close>, \<^verbatim>\<open>cluster_id\<close>, \<^verbatim>\<open>cluster_size\<close>, \<^verbatim>\<open>template_mined\<close> and
  \<^verbatim>\<open>cluster_count\<close>, in this order, holding the change type, the id, size and template of
  the cluster the engine returned, and the number of clusters of the engine after the
  call. The only way for it not to return that dictionary is an exception out of a
  snapshot that it attempted.
\<close>

theorem add_log_message_result:
  assumes "drain_add_log_message E (drain m) (masker_mask E (masker m) msg) = (Inr (c, ct), d)"
  shows "case fst (add_log_message E m msg now now') of
           Inr result \<Rightarrow>
             result =
               [(''change_type'', PyStr ct),
                (''cluster_id'', PyInt (cluster_id c)),
                (''cluster_size'', PyInt (size_lc c)),
                (''template_mined'', PyStr (get_template c)),
                (''cluster_count'', PyInt (int (length (clusters d))))]
         | Inl e \<Rightarrow> snapshots_attempted m (snd (add_log_message E m msg now now')) \<noteq> []"
proof (cases "persistence_handler m")
  case None
  then show ?thesis
    by (simp add: add_log_message_engine_ok[OF assms] snapshot_step_none result_dict_def)
next
  case (Some h)
  note handler = this
  have h: "persistence_handler (engine_done m d) = Some h"
    using handler by simp
  show ?thesis
  proof (cases "get_snapshot_reason (engine_done m d) ct (cluster_id c) now")
    case None
    then show ?thesis
      by (simp add: add_log_message_engine_ok[OF assms] snapshot_step_skip[OF h] result_dict_def)
  next
    case (Some r)
    note r = this
    show ?thesis
    proof (cases "r = []")
      case True
      then show ?thesis using r
        by (simp add: add_log_message_engine_ok[OF assms] snapshot_step_skip[OF h] result_dict_def)
    next
      case False
      show ?thesis
        by (simp add: add_log_message_engine_ok[OF assms] snapshot_step_save[OF h r False]
            Let_def result_dict_def snapshots_attempted_def map_filter_simps
            split: sum.splits)
    qed
  qed
qed

theorem add_log_message_result_witness:
  "drain_add_log_message demo_env (drain (demo_miner (Some empty_store)))
     (masker_mask demo_env (masker (demo_miner (Some empty_store))) ''hello'')
     = (Inr (\<lparr>cluster_id = 1, size_lc = 1, template = ''hello''\<rparr>, ''cluster_created''),
        snd (demo_add_log_message (drain (demo_miner (Some empty_store))) ''hello''))
   \<and> fst (add_log_message demo_env (demo_miner (Some empty_store)) ''hello'' 101 102) =
       Inr [(''change_type'', PyStr ''cluster_created''),
            (''cluster_id'', PyInt 1),
            (''cluster_size'', PyInt 1),
            (''template_mined'', PyStr ''hello''),
            (''cluster_count'', PyInt 1)]"
proof -
  have e: "drain_add_log_message demo_env (drain (demo_miner (Some empty_store)))
             (masker_mask demo_env (masker (demo_miner (Some empty_store))) ''hello'')
           = (Inr (\<lparr>cluster_id = 1, size_lc = 1, template = ''hello''\<rparr>, ''cluster_created''),
              snd (demo_add_log_message (drain (demo_miner (Some empty_store))) ''hello''))"
    by code_simp
  have r: "\<not> isl (fst (add_log_message demo_env (demo_miner (Some empty_store)) ''hello'' 101 102))"
    by code_simp
  have c: "length (clusters (snd (demo_add_log_message (drain (demo_miner (Some empty_store)))
             ''hello''))) = 1"
    by code_simp
  show ?thesis
    using add_log_message_result[OF e, of 101 102] e r c
    by (auto simp: get_template_def split: sum.splits)
qed

text \<open>
  C1, as the code has it. The claim as stated (every processed message with a change
  type other than "none" leads to exactly one snapshot) fails for a controller without
  a persistence handler: line 125 guards the whole snapshot policy, so the message is
  processed and no snapshot is attempted.
\<close>

theorem structural_change_without_store_counterexample:
  "fst (drain_add_log_message demo_env (drain (demo_miner None))
          (masker_mask demo_env (masker (demo_miner None)) ''hello'')) =
     Inr (\<lparr>cluster_id = 1, size_lc = 1, template = ''hello''\<rparr>, ''cluster_created'')
   \<and> ''cluster_created'' \<noteq> ''none''
   \<and> fst (add_log_message demo_env (demo_miner None) ''hello'' 101 102) =
       Inr [(''change_type'', PyStr ''cluster_created''),
            (''cluster_id'', PyInt 1),
            (''cluster_size'', PyInt 1),
            (''template_mined'', PyStr ''hello''),
            (''cluster_count'', PyInt 1)]
   \<and> snapshots_attempted (demo_miner None)
        (snd (add_log_message demo_env (demo_miner None) ''hello'' 101 102)) = []"
  by code_simp

text \<open>
  C1, amended: when a persistence handler is configured and the engine reports a change
  type other than "none", \<open>get_snapshot_reason\<close> returns the change type, a space and
  the cluster id in parentheses, whatever the clock and the time of the last save are;
  \<open>add_log_message\<close> attempts exactly one snapshot, with that reason, and hands the
  snapshot bytes to the handler's save once.
\<close>

theorem structural_change_snapshots_once:
  assumes "persistence_handler m = Some h"
      and "drain_add_log_message E (drain m) (masker_mask E (masker m) msg) = (Inr (c, ct), d)"
      and "ct \<noteq> ''none''"
  shows "get_snapshot_reason m0 ct (cluster_id c) now =
           Some (ct @ '' ('' @ str_int (cluster_id c) @ '')'')
       \<and> snapshots_attempted m (snd (add_log_message E m msg now now')) =
           [ct @ '' ('' @ str_int (cluster_id c) @ '')'']
       \<and> persistence_handler (snd (add_log_message E m msg now now')) =
           Some (snd (ph_save_state E h
                   (snapshot_bytes E (start_section ''save_state'' (engine_done m d)))))"
proof -
  have h: "persistence_handler (engine_done m d) = Some h"
    using assms(1) by simp
  have r: "get_snapshot_reason (engine_done m d) ct (cluster_id c) now =
             Some (ct @ '' ('' @ str_int (cluster_id c) @ '')'')"
    using assms(3) by (rule snapshot_reason_structural)
  have ne: "ct @ '' ('' @ str_int (cluster_id c) @ '')'' \<noteq> []"
    by simp
  show ?thesis
    by (simp add: snapshot_reason_structural[OF assms(3)]
        add_log_message_engine_ok[OF assms(2)] snapshot_step_save[OF h r ne]
        Let_def snapshots_attempted_def map_filter_simps split: sum.splits)
qed

theorem structural_change_snapshots_once_witness:
  "persistence_handler (demo_miner (Some empty_store)) = Some empty_store
   \<and> drain_add_log_message demo_env (drain (demo_miner (Some empty_store)))
       (masker_mask demo_env (masker (demo_miner (Some empty_store))) ''hello'')
       = (Inr (\<lparr>cluster_id = 1, size_lc = 1, template = ''hello''\<rparr>, ''cluster_created''),
          snd (demo_add_log_message (drain (demo_miner (Some empty_store))) ''hello''))
   \<and> ''cluster_created'' \<noteq> ''none''
   \<and> get_snapshot_reason (demo_miner (Some empty_store)) ''cluster_created'' 1 101 =
        Some ''cluster_created (1)''
   \<and> snapshots_attempted (demo_miner (Some empty_store))
        (snd (add_log_message demo_env (demo_miner (Some empty_store)) ''hello'' 101 102)) =
        [''cluster_created (1)'']"
proof -
  have h: "persistence_handler (demo_miner (Some empty_store)) = Some empty_store"
    by code_simp
  have e: "drain_add_log_message demo_env (drain (demo_miner (Some empty_store)))
             (masker_mask demo_env (masker (demo_miner (Some empty_store))) ''hello'')
           = (Inr (\<lparr>cluster_id = 1, size_lc = 1, template = ''hello''\<rparr>, ''cluster_created''),
              snd (demo_add_log_message (drain (demo_miner (Some empty_store))) ''hello''))"
    by code_simp
  have n: "''cluster_created'' \<noteq> ''none''"
    by simp
  have s: "str_int 1 = ''1''"
    by code_simp
  show ?thesis
    using structural_change_snapshots_once[OF h e n, of "demo_miner (Some empty_store)" 101 102]
      h e s
    by simp
qed

text \<open>
  C2, as the code has it. The claim as stated (a message with change type "none" leads
  to a snapshot if and only if the interval has elapsed) fails for a controller without
  a persistence handler: the interval has elapsed and no snapshot is attempted.
\<close>

theorem unchanged_match_without_store_counterexample:
  "fst (drain_add_log_message demo_env (drain (demo_miner1 None))
          (masker_mask demo_env (masker (demo_miner1 None)) ''hello'')) =
     Inr (\<lparr>cluster_id = 1, size_lc = 2, template = ''hello''\<rparr>, ''none'')
   \<and> 500 - last_save_time (demo_miner1 None)
         \<ge> snapshot_interval_minutes (config (demo_miner1 None)) * 60
   \<and> snapshots_attempted (demo_miner1 None)
        (snd (add_log_message demo_env (demo_miner1 None) ''hello'' 500 501)) = []"
  by code_simp

text \<open>
  C2, amended: when a persistence handler is configured and the engine reports the
  change type "none", a snapshot is attempted if and only if the clock minus
  \<open>last_save_time\<close> is at least 60 times the configuration attribute
  \<^verbatim>\<open>snapshot_interval_minutes\<close>; its reason then is "periodic", and otherwise no
  snapshot is attempted.
\<close>

theorem unchanged_match_snapshots_periodically:
  assumes "persistence_handler m = Some h"
      and "drain_add_log_message E (drain m) (masker_mask E (masker m) msg) = (Inr (c, ''none''), d)"
  shows "get_snapshot_reason m0 ''none'' (cluster_id c) now =
           (if now - last_save_time m0 \<ge> snapshot_interval_minutes (config m0) * 60
            then Some ''periodic'' else None)
       \<and> snapshots_attempted m (snd (add_log_message E m msg now now')) =
           (if now - last_save_time m \<ge> snapshot_interval_minutes (config m) * 60
            then [''periodic''] else [])"
proof (cases "now - last_save_time m \<ge> snapshot_interval_minutes (config m) * 60")
  case True
  have h: "persistence_handler (engine_done m d) = Some h"
    using assms(1) by simp
  have r: "get_snapshot_reason (engine_done m d) ''none'' (cluster_id c) now = Some ''periodic''"
    using True by (simp add: snapshot_reason_none)
  have ne: "''periodic'' \<noteq> []"
    by simp
  show ?thesis using True
    by (simp add: snapshot_reason_none
        add_log_message_engine_ok[OF assms(2)] snapshot_step_save[OF h r ne]
        Let_def snapshots_attempted_def map_filter_simps split: sum.splits)
next
  case False
  have h: "persistence_handler (engine_done m d) = Some h"
    using assms(1) by simp
  have r: "\<not> truthy (get_snapshot_reason (engine_done m d) ''none'' (cluster_id c) now)"
    using False by (simp add: snapshot_reason_none)
  show ?thesis using False
    by (simp add: snapshot_reason_none
        add_log_message_engine_ok[OF assms(2)] snapshot_step_skip[OF h r]
        Let_def snapshots_attempted_def map_filter_simps split: sum.splits)
qed

theorem unchanged_match_snapshots_periodically_witness:
  "persistence_handler (demo_miner1 (Some empty_store)) = Some (the (persistence_handler (demo_miner1 (Some empty_store))))
   \<and> drain_add_log_message demo_env (drain (demo_miner1 (Some empty_store)))
       (masker_mask demo_env (masker (demo_miner1 (Some empty_store))) ''hello'')
       = (Inr (\<lparr>cluster_id = 1, size_lc = 2, template = ''hello''\<rparr>, ''none''),
          snd (demo_add_log_message (drain (demo_miner1 (Some empty_store))) ''hello''))
   \<and> last_save_time (demo_miner1 (Some empty_store)) = 102
   \<and> snapshot_interval_minutes (config (demo_miner1 (Some empty_store))) = 5
   \<and> snapshots_attempted (demo_miner1 (Some empty_store))
        (snd (add_log_message demo_env (demo_miner1 (Some empty_store)) ''hello'' 401 402)) = []
   \<and> snapshots_attempted (demo_miner1 (Some empty_store))
        (snd (add_log_message demo_env (demo_miner1 (Some empty_store)) ''hello'' 402 403)) =
        [''periodic'']"
proof -
  have h: "persistence_handler (demo_miner1 (Some empty_store)) =
             Some (the (persistence_handler (demo_miner1 (Some empty_store))))"
    by code_simp
  have e: "drain_add_log_message demo_env (drain (demo_miner1 (Some empty_store)))
             (masker_mask demo_env (masker (demo_miner1 (Some empty_store))) ''hello'')
           = (Inr (\<lparr>cluster_id = 1, size_lc = 2, template = ''hello''\<rparr>, ''none''),
              snd (demo_add_log_message (drain (demo_miner1 (Some empty_store))) ''hello''))"
    by code_simp
  have t: "last_save_time (demo_miner1 (Some empty_store)) = 102"
    by code_simp
  have i: "snapshot_interval_minutes (config (demo_miner1 (Some empty_store))) = 5"
    by code_simp
  show ?thesis
    using unchanged_match_snapshots_periodically[OF h e, of "demo_miner1 (Some empty_store)" 401 402]
      unchanged_match_snapshots_periodically[OF h e, of "demo_miner1 (Some empty_store)" 402 403]
      h e t i
    by simp
qed

text \<open>
  C7. \<open>add_log_message\<close> sets \<open>last_save_time\<close> to the clock after the save exactly
  when it attempted a snapshot and returned; on every exception, and when no snapshot
  is attempted, it leaves it as it was. \<open>load_state\<close> and \<open>save_state\<close> never write
  it. When the handler's save raises during the snapshot, \<open>add_log_message\<close> raises
  the same exception and \<open>last_save_time\<close> is unchanged.
\<close>

theorem last_save_time_only_after_saved_snapshot:
  "last_save_time (snd (add_log_message E m msg now now')) =
     (if \<not> isl (fst (add_log_message E m msg now now'))
         \<and> snapshots_attempted m (snd (add_log_message E m msg now now')) \<noteq> []
      then now' else last_save_time m)
   \<and> last_save_time (snd (load_state E m)) = last_save_time m
   \<and> last_save_time (snd (save_state E m reason)) = last_save_time m
   \<and> (persistence_handler m = Some h
      \<and> drain_add_log_message E (drain m) (masker_mask E (masker m) msg) = (Inr (c, ct), d)
      \<and> truthy (get_snapshot_reason m ct (cluster_id c) now)
      \<and> fst (ph_save_state E h
               (snapshot_bytes E (start_section ''save_state'' (engine_done m d)))) = Inl e
      \<longrightarrow> fst (add_log_message E m msg now now') = Inl e
          \<and> last_save_time (snd (add_log_message E m msg now now')) = last_save_time m)"
proof (intro conjI)
  show "last_save_time (snd (add_log_message E m msg now now')) =
     (if \<not> isl (fst (add_log_message E m msg now now'))
         \<and> snapshots_attempted m (snd (add_log_message E m msg now now')) \<noteq> []
      then now' else last_save_time m)"
    by (rule add_log_message_last_save_time)
  show "last_save_time (snd (load_state E m)) = last_save_time m"
    by (rule load_state_last_save_time)
  show "last_save_time (snd (save_state E m reason)) = last_save_time m"
    by (rule save_state_last_save_time)
  show "persistence_handler m = Some h
      \<and> drain_add_log_message E (drain m) (masker_mask E (masker m) msg) = (Inr (c, ct), d)
      \<and> truthy (get_snapshot_reason m ct (cluster_id c) now)
      \<and> fst (ph_save_state E h
               (snapshot_bytes E (start_section ''save_state'' (engine_done m d)))) = Inl e
      \<longrightarrow> fst (add_log_message E m msg now now') = Inl e
          \<and> last_save_time (snd (add_log_message E m msg now now')) = last_save_time m"
  proof (rule impI, elim conjE)
    assume "persistence_handler m = Some h"
      and "drain_add_log_message E (drain m) (masker_mask E (masker m) msg) = (Inr (c, ct), d)"
      and "truthy (get_snapshot_reason m ct (cluster_id c) now)"
      and "fst (ph_save_state E h
               (snapshot_bytes E (start_section ''save_state'' (engine_done m d)))) = Inl e"
    then show "fst (add_log_message E m msg now now') = Inl e
          \<and> last_save_time (snd (add_log_message E m msg now now')) = last_save_time m"
      by (rule save_failure_propagates)
  qed
qed

theorem last_save_time_only_after_saved_snapshot_witness:
  "persistence_handler (demo_miner (Some broken_store)) = Some broken_store
   \<and> drain_add_log_message demo_env (drain (demo_miner (Some broken_store)))
       (masker_mask demo_env (masker (demo_miner (Some broken_store))) ''hello'')
       = (Inr (\<lparr>cluster_id = 1, size_lc = 1, template = ''hello''\<rparr>, ''cluster_created''),
          snd (demo_add_log_message (drain (demo_miner (Some broken_store))) ''hello''))
   \<and> truthy (get_snapshot_reason (demo_miner (Some broken_store)) ''cluster_created'' 1 101)
   \<and> fst (ph_save_state demo_env broken_store
            (snapshot_bytes demo_env (start_section ''save_state''
               (engine_done (demo_miner (Some broken_store))
                  (snd (demo_add_log_message (drain (demo_miner (Some broken_store))) ''hello''))))))
       = Inl (LibraryError ''OSError'')
   \<and> fst (add_log_message demo_env (demo_miner (Some broken_store)) ''hello'' 101 102) =
       Inl (LibraryError ''OSError'')
   \<and> last_save_time (snd (add_log_message demo_env (demo_miner (Some broken_store)) ''hello'' 101 102))
       = 100
   \<and> last_save_time (snd (add_log_message demo_env (demo_miner (Some empty_store)) ''hello'' 101 102))
       = 102"
proof -
  have h: "persistence_handler (demo_miner (Some broken_store)) = Some broken_store"
    by code_simp
  have e: "drain_add_log_message demo_env (drain (demo_miner (Some broken_store)))
       (masker_mask demo_env (masker (demo_miner (Some broken_store))) ''hello'')
       = (Inr (\<lparr>cluster_id = 1, size_lc = 1, template = ''hello''\<rparr>, ''cluster_created''),
          snd (demo_add_log_message (drain (demo_miner (Some broken_store))) ''hello''))"
    by code_simp
  have t: "truthy (get_snapshot_reason (demo_miner (Some broken_store)) ''cluster_created''
             (cluster_id \<lparr>cluster_id = 1, size_lc = 1, template = ''hello''\<rparr>) 101)"
    by code_simp
  have f: "fst (ph_save_state demo_env broken_store
            (snapshot_bytes demo_env (start_section ''save_state''
               (engine_done (demo_miner (Some broken_store))
                  (snd (demo_add_log_message (drain (demo_miner (Some broken_store))) ''hello''))))))
       = Inl (LibraryError ''OSError'')"
    by code_simp
  have l: "last_save_time (demo_miner (Some broken_store)) = 100"
    by code_simp
  have ok: "\<not> isl (fst (add_log_message demo_env (demo_miner (Some empty_store)) ''hello'' 101 102))
      \<and> snapshots_attempted (demo_miner (Some empty_store))
          (snd (add_log_message demo_env (demo_miner (Some empty_store)) ''hello'' 101 102)) \<noteq> []"
    by code_simp
  show ?thesis
    using last_save_time_only_after_saved_snapshot[of demo_env "demo_miner (Some broken_store)"
        "''hello''" 101 102 undefined broken_store
        "\<lparr>cluster_id = 1, size_lc = 1, template = ''hello''\<rparr>" "''cluster_created''"
        "snd (demo_add_log_message (drain (demo_miner (Some broken_store))) ''hello'')"
        "LibraryError ''OSError''"]
      last_save_time_only_after_saved_snapshot[of demo_env "demo_miner (Some empty_store)"
        "''hello''" 101 102]
      h e t f l ok
    by simp
qed

text \<open>
  C3. The claim is what the comments on lines 68, 69 and 76 announce, and the loop of
  lines 70 to 74 does it: it copies the keys into a list first. The loop of lines 77 to
  79 iterates over the live key view of the dictionary that it pops from and stores
  into. Here the store holds the snapshot of an engine with six clusters, which
  deserialises with the keys "1" to "6": \<open>load_state\<close> returns, the constructor
  succeeds, the keys of the root mapping are integers, but the id-to-cluster mapping
  still has the string key "2", and looking up the integer 2 finds nothing.
\<close>

theorem live_view_normalisation_leaves_string_key:
  "map_sum id (\<lambda>g. keys (id_to_cluster g)) (jsonpickle_loads demo_env (replicate 6 99))
     = Inr [KStr ''1'', KStr ''2'', KStr ''3'', KStr ''4'', KStr ''5'', KStr ''6'']
   \<and> TemplateMiner_init demo_env (Some (store_of 6)) (Some demo_config) 100
       = Inr (demo_miner (Some (store_of 6)))
   \<and> keys (root_key_to_child_node (drain (demo_miner (Some (store_of 6)))))
       = [KInt 1, KInt 2, KInt 3, KInt 4, KInt 5, KInt 6]
   \<and> keys (id_to_cluster (drain (demo_miner (Some (store_of 6)))))
       = [KStr ''2'', KInt 3, KInt 4, KInt 5, KInt 6, KInt 1]
   \<and> dict_lookup (id_to_cluster (drain (demo_miner (Some (store_of 6))))) (KInt 2) = None"
  by code_simp

text \<open>
  With the snapshot of an engine with two clusters the same loop makes the iterator
  raise, and the constructor fails.
\<close>

lemma live_view_normalisation_raises:
  "map_sum id (\<lambda>g. keys (id_to_cluster g)) (jsonpickle_loads demo_env (replicate 2 99))
     = Inr [KStr ''1'', KStr ''2'']
   \<and> TemplateMiner_init demo_env (Some (store_of 2)) (Some demo_config) 100
       = Inl (RuntimeError ''dictionary keys changed during iteration'')"
  by code_simp

text \<open>
  C5, as the code has it. The claim as stated (the first message behaves identically
  with an empty store and with no store) fails when the store's save raises: the first
  message creates a cluster, the controller with the store attempts a snapshot, and the
  exception of the save leaves \<open>add_log_message\<close>, where the controller without a
  store returns the result.
\<close>

theorem first_message_with_broken_store_counterexample:
  "ph_load_state demo_env broken_store = Inr None
   \<and> TemplateMiner_init demo_env (Some broken_store) (Some demo_config) 100
       = Inr (demo_miner (Some broken_store))
   \<and> TemplateMiner_init demo_env None (Some demo_config) 100 = Inr (demo_miner None)
   \<and> drain (demo_miner (Some broken_store)) = drain (demo_miner None)
   \<and> fst (add_log_message demo_env (demo_miner (Some broken_store)) ''hello'' 101 102)
       = Inl (LibraryError ''OSError'')
   \<and> fst (add_log_message demo_env (demo_miner None) ''hello'' 101 102)
       = Inr [(''change_type'', PyStr ''cluster_created''),
              (''cluster_id'', PyInt 1),
              (''cluster_size'', PyInt 1),
              (''template_mined'', PyStr ''hello''),
              (''cluster_count'', PyInt 1)]"
  by code_simp

text \<open>
  C5, amended: when the handler's load returns \<^verbatim>\<open>None\<close>, the constructor returns; the
  controller is the one constructed with no store, except for the handler and two log
  messages; its engine is the fresh one, with no clusters; \<open>load_state\<close> changes
  nothing but the log. The first message leaves the same engine state as with no
  store, and returns the same result unless the snapshot that is attempted raises.
\<close>

theorem empty_store_startup:
  assumes "ph_load_state E h = Inr None"
      and "m0 = projr (TemplateMiner_init E None cfg now)"
      and "m1 = projr (TemplateMiner_init E (Some h) cfg now)"
  shows "TemplateMiner_init E None cfg now = Inr m0
       \<and> TemplateMiner_init E (Some h) cfg now = Inr m1
       \<and> m1 = m0\<lparr>persistence_handler := Some h,
                  logged := logged m0 @ [CheckingForSavedState, SavedStateNotFound]\<rparr>
       \<and> int (length (clusters (drain m1))) = 0
       \<and> (persistence_handler m = Some h \<longrightarrow>
            load_state E m =
              (Inr (), m\<lparr>logged := logged m @ [CheckingForSavedState, SavedStateNotFound]\<rparr>))
       \<and> drain (snd (add_log_message E m1 msg t t')) = drain (snd (add_log_message E m0 msg t t'))
       \<and> (fst (add_log_message E m1 msg t t') = fst (add_log_message E m0 msg t t')
          \<or> (isl (fst (add_log_message E m1 msg t t'))
              \<and> snapshots_attempted m1 (snd (add_log_message E m1 msg t t')) \<noteq> []))"
proof -
  have i0: "TemplateMiner_init E None cfg now = Inr m0"
    unfolding assms(2) by (rule init_without_handler_returns)
  have h: "persistence_handler (m0\<lparr>persistence_handler := Some h\<rparr>) = Some h"
    by simp
  have i1: "TemplateMiner_init E (Some h) cfg now =
              Inr (m0\<lparr>persistence_handler := Some h,
                      logged := logged m0 @ [CheckingForSavedState, SavedStateNotFound]\<rparr>)"
    unfolding assms(2)
    by (simp add: init_with_handler load_state_not_found[OF _ assms(1)])
  have m1: "m1 = m0\<lparr>persistence_handler := Some h,
                  logged := logged m0 @ [CheckingForSavedState, SavedStateNotFound]\<rparr>"
    unfolding assms(3) i1 by simp
  have c: "int (length (clusters (drain m1))) = 0"
    unfolding m1 assms(2) by (simp add: init_without_handler_fields)
  have d: "drain m1 = drain m0" and k: "masker m1 = masker m0"
    unfolding m1 by simp_all
  have n: "persistence_handler m0 = None"
    unfolding assms(2) by (simp add: init_without_handler_fields)
  have o1: "fst (add_log_message E m1 msg t t') =
     (case fst (drain_add_log_message E (drain m0) (masker_mask E (masker m0) msg)) of
        Inl e \<Rightarrow> Inl e
      | Inr (c, ct) \<Rightarrow>
          Inr (result_dict ct c
                 (snd (drain_add_log_message E (drain m0) (masker_mask E (masker m0) msg)))))
   \<or> (isl (fst (add_log_message E m1 msg t t'))
       \<and> snapshots_attempted m1 (snd (add_log_message E m1 msg t t')) \<noteq> [])"
    using add_log_message_outcome[of E m1 msg t t'] unfolding d k .
  have o0: "fst (add_log_message E m0 msg t t') =
     (case fst (drain_add_log_message E (drain m0) (masker_mask E (masker m0) msg)) of
        Inl e \<Rightarrow> Inl e
      | Inr (c, ct) \<Rightarrow>
          Inr (result_dict ct c
                 (snd (drain_add_log_message E (drain m0) (masker_mask E (masker m0) msg)))))"
    by (rule add_log_message_without_handler[OF n])
  have o: "fst (add_log_message E m1 msg t t') = fst (add_log_message E m0 msg t t')
          \<or> (isl (fst (add_log_message E m1 msg t t'))
              \<and> snapshots_attempted m1 (snd (add_log_message E m1 msg t t')) \<noteq> [])"
    using o1 unfolding o0[symmetric] .
  have dd: "drain (snd (add_log_message E m1 msg t t')) = drain (snd (add_log_message E m0 msg t t'))"
    by (simp add: add_log_message_drain d k)
  have ls: "persistence_handler m = Some h \<longrightarrow>
            load_state E m =
              (Inr (), m\<lparr>logged := logged m @ [CheckingForSavedState, SavedStateNotFound]\<rparr>)"
    using load_state_not_found[OF _ assms(1), of m] by blast
  have i1': "TemplateMiner_init E (Some h) cfg now = Inr m1"
    using i1 m1 by simp
  show ?thesis
    using i0 i1' m1 c ls dd o by blast
qed

theorem empty_store_startup_witness:
  "ph_load_state demo_env empty_store = Inr None
   \<and> TemplateMiner_init demo_env (Some empty_store) (Some demo_config) 100
       = Inr (demo_miner (Some empty_store))
   \<and> demo_miner (Some empty_store)
       = (demo_miner None)\<lparr>persistence_handler := Some empty_store,
            logged := [Starting, CheckingForSavedState, SavedStateNotFound]\<rparr>
   \<and> int (length (clusters (drain (demo_miner (Some empty_store))))) = 0
   \<and> fst (add_log_message demo_env (demo_miner (Some empty_store)) ''hello'' 101 102)
       = fst (add_log_message demo_env (demo_miner None) ''hello'' 101 102)
   \<and> drain (snd (add_log_message demo_env (demo_miner (Some empty_store)) ''hello'' 101 102))
       = drain (snd (add_log_message demo_env (demo_miner None) ''hello'' 101 102))"
proof -
  have l: "ph_load_state demo_env empty_store = Inr None"
    by (simp add: demo_env_def demo_load_state_def empty_store_def)
  have ok: "\<not> isl (fst (add_log_message demo_env (demo_miner (Some empty_store)) ''hello'' 101 102))"
    by code_simp
  have lg: "logged (demo_miner None) = [Starting]"
    by (simp add: demo_miner_def init_without_handler_fields)
  show ?thesis
    using empty_store_startup[OF l demo_miner_def demo_miner_def,
        where msg = "''hello''" and t = 101 and t' = 102 and m = "demo_miner (Some empty_store)"]
      l ok
    unfolding lg append_Cons append_Nil
    by blast
qed

text \<open>
  C6. When the store returns bytes, and base64-decoding them raises, or decompressing
  the decoded bytes raises (both only when compression is configured), or
  deserialising raises, the constructor raises that exception, so there is no
  controller; \<open>load_state\<close> raises it and changes nothing but the log.
\<close>

theorem corrupt_snapshot_fails_construction:
  assumes "ph_load_state E h = Inr (Some state)"
      and "c = (case cfg of None \<Rightarrow> loaded_config E | Some c' \<Rightarrow> c')"
      and "(snapshot_compress_state c \<and> b64decode E state = Inl e)
         \<or> (snapshot_compress_state c
             \<and> (\<exists>z. b64decode E state = Inr z \<and> zlib_decompress E z = Inl e))
         \<or> (\<exists>s. decode_state E (snapshot_compress_state c) state = Inr s
                 \<and> jsonpickle_loads E s = Inl e)"
  shows "TemplateMiner_init E (Some h) cfg now = Inl e
       \<and> (persistence_handler m = Some h \<and> config m = c \<longrightarrow>
            load_state E m = (Inl e, m\<lparr>logged := logged m @ [CheckingForSavedState]\<rparr>))"
proof -
  have ld: "load_state E m' = (Inl e, m'\<lparr>logged := logged m' @ [CheckingForSavedState]\<rparr>)"
    if h: "persistence_handler m' = Some h" and c: "config m' = c"
    for m' :: "('a, 'b) template_miner"
  proof (cases "decode_state E (snapshot_compress_state c) state")
    case (Inl e')
    then have "e' = e"
      using assms(3) by (auto simp: decode_state_def split: sum.splits if_splits)
    then show ?thesis
      using load_state_undecodable[OF h assms(1), of e] Inl c by simp
  next
    case (Inr s)
    then have "jsonpickle_loads E s = Inl e"
      using assms(3) by (auto simp: decode_state_def split: sum.splits if_splits)
    then show ?thesis
      using load_state_undeserialisable[OF h assms(1), of s e] Inr c by simp
  qed
  have "TemplateMiner_init E (Some h) cfg now = Inl e"
    using ld[of "(projr (TemplateMiner_init E None cfg now))\<lparr>persistence_handler := Some h\<rparr>"]
      assms(2)
    by (simp add: init_with_handler init_without_handler_fields)
  then show ?thesis
    using ld[of m] by simp
qed

theorem corrupt_snapshot_fails_construction_witness:
  "ph_load_state demo_env (corrupt_store [1, 2, 3]) = Inr (Some [1, 2, 3])
   \<and> snapshot_compress_state demo_config
   \<and> b64decode demo_env [1, 2, 3] = Inl (LibraryError ''binascii.Error'')
   \<and> TemplateMiner_init demo_env (Some (corrupt_store [1, 2, 3])) (Some demo_config) 100
       = Inl (LibraryError ''binascii.Error'')
   \<and> b64decode demo_env (demo_b64encode [1]) = Inr [1]
   \<and> zlib_decompress demo_env [1] = Inl (LibraryError ''zlib.error'')
   \<and> TemplateMiner_init demo_env (Some (corrupt_store (demo_b64encode [1]))) (Some demo_config) 100
       = Inl (LibraryError ''zlib.error'')
   \<and> decode_state demo_env True (demo_b64encode (demo_compress [1])) = Inr [1]
   \<and> jsonpickle_loads demo_env [1] = Inl (LibraryError ''JSONDecodeError'')
   \<and> TemplateMiner_init demo_env (Some (corrupt_store (demo_b64encode (demo_compress [1]))))
        (Some demo_config) 100
       = Inl (LibraryError ''JSONDecodeError'')"
proof -
  have l: "ph_load_state demo_env (corrupt_store b) = Inr (Some b)" for b
    by (simp add: demo_env_def demo_load_state_def corrupt_store_def)
  have c: "demo_config = (case Some demo_config of None \<Rightarrow> loaded_config demo_env | Some c' \<Rightarrow> c')"
    by simp
  have z: "snapshot_compress_state demo_config"
    by (simp add: demo_config_def)
  have b1: "b64decode demo_env [1, 2, 3] = Inl (LibraryError ''binascii.Error'')"
    by code_simp
  have b2: "b64decode demo_env (demo_b64encode [1]) = Inr [1]"
    by code_simp
  have d2: "zlib_decompress demo_env [1] = Inl (LibraryError ''zlib.error'')"
    by code_simp
  have b3: "decode_state demo_env True (demo_b64encode (demo_compress [1])) = Inr [1]"
    by code_simp
  have d3: "jsonpickle_loads demo_env [1] = Inl (LibraryError ''JSONDecodeError'')"
    by code_simp
  have h1: "(snapshot_compress_state demo_config
             \<and> b64decode demo_env [1, 2, 3] = Inl (LibraryError ''binascii.Error''))
         \<or> (snapshot_compress_state demo_config
             \<and> (\<exists>z. b64decode demo_env [1, 2, 3] = Inr z
                    \<and> zlib_decompress demo_env z = Inl (LibraryError ''binascii.Error'')))
         \<or> (\<exists>s. decode_state demo_env (snapshot_compress_state demo_config) [1, 2, 3] = Inr s
                 \<and> jsonpickle_loads demo_env s = Inl (LibraryError ''binascii.Error''))"
    using z b1 by simp
  have h2: "(snapshot_compress_state demo_config
             \<and> b64decode demo_env (demo_b64encode [1]) = Inl (LibraryError ''zlib.error''))
         \<or> (snapshot_compress_state demo_config
             \<and> (\<exists>z. b64decode demo_env (demo_b64encode [1]) = Inr z
                    \<and> zlib_decompress demo_env z = Inl (LibraryError ''zlib.error'')))
         \<or> (\<exists>s. decode_state demo_env (snapshot_compress_state demo_config)
                   (demo_b64encode [1]) = Inr s
                 \<and> jsonpickle_loads demo_env s = Inl (LibraryError ''zlib.error''))"
    using z b2 d2 by simp
  have h3: "(snapshot_compress_state demo_config
             \<and> b64decode demo_env (demo_b64encode (demo_compress [1]))
                 = Inl (LibraryError ''JSONDecodeError''))
         \<or> (snapshot_compress_state demo_config
             \<and> (\<exists>z. b64decode demo_env (demo_b64encode (demo_compress [1])) = Inr z
                    \<and> zlib_decompress demo_env z = Inl (LibraryError ''JSONDecodeError'')))
         \<or> (\<exists>s. decode_state demo_env (snapshot_compress_state demo_config)
                   (demo_b64encode (demo_compress [1])) = Inr s
                 \<and> jsonpickle_loads demo_env s = Inl (LibraryError ''JSONDecodeError''))"
    using z b3 d3 by simp
  show ?thesis
    using corrupt_snapshot_fails_construction[OF l c h1, of 100]
      corrupt_snapshot_fails_construction[OF l c h2, of 100]
      corrupt_snapshot_fails_construction[OF l c h3, of 100]
      l[of "[1, 2, 3]"] z b1 b2 d2 b3 d3
    by simp
qed

text \<open>
  C9. When \<open>load_state\<close> has restored a snapshot, the profiler of the restored engine
  is the reference that the controller holds, which is unchanged and refers to the
  same object as before; the profiler object that came out of the deserialised state
  sits at a new address, and the engine does not refer to it.
\<close>

theorem restored_engine_uses_live_profiler:
  assumes "persistence_handler m = Some h"
      and "ph_load_state E h = Inr (Some state)"
      and "fst (load_state E m) = Inr ()"
      and "profiler m < length (heap m)"
      and "m' = snd (load_state E m)"
  shows "drain_profiler (drain m') = profiler m'
       \<and> profiler m' = profiler m
       \<and> heap m' ! profiler m' = heap m ! profiler m
       \<and> (\<exists>s loaded. decode_state E (snapshot_compress_state (config m)) state = Inr s
            \<and> jsonpickle_loads E s = Inr loaded
            \<and> heap m' = heap m @ [drain_profiler loaded]
            \<and> drain_profiler (drain m') \<noteq> length (heap m))"
proof (cases "decode_state E (snapshot_compress_state (config m)) state")
  case (Inl e)
  show ?thesis
    using assms(3) load_state_undecodable[OF assms(1,2) Inl] by simp
next
  case (Inr s)
  note dec = this
  show ?thesis
  proof (cases "jsonpickle_loads E s")
    case (Inl e)
    show ?thesis
      using assms(3) load_state_undeserialisable[OF assms(1,2) dec Inl] by simp
  next
    case (Inr loaded)
    show ?thesis
      using assms(3,4) dec Inr unfolding assms(5)
      by (auto simp: load_state_loaded[OF assms(1,2) dec Inr] Let_def nth_append
          split: prod.splits sum.splits)
  qed
qed

theorem restored_engine_uses_live_profiler_witness:
  "persistence_handler (demo_unloaded (store_of 1)) = Some (store_of 1)
   \<and> ph_load_state demo_env (store_of 1) = Inr (Some [72, 73, 71, 68])
   \<and> fst (load_state demo_env (demo_unloaded (store_of 1))) = Inr ()
   \<and> profiler (demo_unloaded (store_of 1)) < length (heap (demo_unloaded (store_of 1)))
   \<and> heap (demo_unloaded (store_of 1)) = [NullProfiler]
   \<and> map_sum id drain_profiler (jsonpickle_loads demo_env [99])
        = Inr (SimpleProfiler [StartSection ''total''])
   \<and> heap (snd (load_state demo_env (demo_unloaded (store_of 1))))
        = [NullProfiler, SimpleProfiler [StartSection ''total'']]
   \<and> profiler (snd (load_state demo_env (demo_unloaded (store_of 1)))) = 0
   \<and> drain_profiler (drain (snd (load_state demo_env (demo_unloaded (store_of 1))))) = 0"
proof -
  have h: "persistence_handler (demo_unloaded (store_of 1)) = Some (store_of 1)"
    by (simp add: demo_unloaded_def)
  have l: "ph_load_state demo_env (store_of 1) = Inr (Some [72, 73, 71, 68])"
    by code_simp
  have r: "fst (load_state demo_env (demo_unloaded (store_of 1))) = Inr ()"
    by code_simp
  have p: "profiler (demo_unloaded (store_of 1)) < length (heap (demo_unloaded (store_of 1)))"
    by code_simp
  have p0: "profiler (demo_unloaded (store_of 1)) = 0"
    by code_simp
  have hp: "heap (demo_unloaded (store_of 1)) = [NullProfiler]"
    by code_simp
  have hp': "heap (snd (load_state demo_env (demo_unloaded (store_of 1))))
        = [NullProfiler, SimpleProfiler [StartSection ''total'']]"
    by code_simp
  have g: "map_sum id drain_profiler (jsonpickle_loads demo_env [99])
        = Inr (SimpleProfiler [StartSection ''total''])"
    by code_simp
  show ?thesis
    using restored_engine_uses_live_profiler[OF h l r p refl] h l r p p0 hp hp' g
    by simp
qed

end
